theory Spec2Isabelle
  imports Complex_Main
begin

section \<open>Option pricing engine (pricing\_engine.py, app.py)\<close>

text \<open>
  Python floats are modelled as exact reals: \<open>math.exp\<close>, \<open>math.log\<close> and
  \<open>math.sqrt\<close> are \<open>exp\<close>, \<open>ln\<close> and \<open>sqrt\<close>, and decimal literals are the
  fractions they denote. The one exception is \<open>TrinomialTree.__init__\<close>, whose stored
  probabilities are compared with 1 exactly: there every arithmetic operation is followed
  by the rounding of IEEE double precision (\<open>fl64\<close>). Overflow (\<open>OverflowError\<close>),
  underflow, infinities and NaN are outside the model throughout, and arguments are Python
  floats (for a numpy scalar, division by zero gives \<open>inf\<close> instead of raising). Every
  exception the source can raise on real inputs is a value of \<open>py_error\<close>; a function
  that can raise returns \<open>py_error + 'a\<close>.
\<close>

subsection \<open>Exceptions and the partial operations of Python's arithmetic\<close>

datatype py_error =
    ValueError          \<comment> \<open>the explicit \<open>raise ValueError\<close> and \<open>math domain error\<close>\<close>
  | ZeroDivisionError   \<comment> \<open>float division by zero, \<open>0.0 ** negative\<close>\<close>
  | IndexError          \<comment> \<open>numpy index out of bounds\<close>
  | ComplexValue        \<comment> \<open>not an exception: \<open>**\<close> gave a complex number, no real result\<close>

definition bind_e :: "py_error + 'a \<Rightarrow> ('a \<Rightarrow> py_error + 'b) \<Rightarrow> py_error + 'b" where
  "bind_e m f = (case m of Inl e \<Rightarrow> Inl e | Inr x \<Rightarrow> f x)"

definition py_div :: "real \<Rightarrow> real \<Rightarrow> py_error + real" where
  "py_div a b = (if b = 0 then Inl ZeroDivisionError else Inr (a / b))"

definition py_sqrt :: "real \<Rightarrow> py_error + real" where
  "py_sqrt x = (if x < 0 then Inl ValueError else Inr (sqrt x))"

definition py_log :: "real \<Rightarrow> py_error + real" where
  "py_log x = (if x \<le> 0 then Inl ValueError else Inr (ln x))"

text \<open>\<open>x ** y\<close> on floats: \<open>x ** 0.0\<close> is 1, zero to a negative power raises, a negative
  base with a fractional exponent gives a complex number.\<close>

definition py_pow :: "real \<Rightarrow> real \<Rightarrow> py_error + real" where
  "py_pow x y =
     (if y = 0 then Inr 1
      else if x = 0 then (if y < 0 then Inl ZeroDivisionError else Inr 0)
      else if x < 0 then
        (if y = of_int \<lfloor>y\<rfloor> then Inr ((if even \<lfloor>y\<rfloor> then 1 else - 1) * (\<bar>x\<bar> powr y))
         else Inl ComplexValue)
      else Inr (x powr y))"

subsection \<open>\<open>str.lower\<close> on ASCII strings\<close>

definition lower_char :: "char \<Rightarrow> char" where
  "lower_char ch =
     (let n = (of_char ch :: nat) in if 65 \<le> n \<and> n \<le> 90 then char_of (n + 32) else ch)"

definition lower :: "string \<Rightarrow> string" where
  "lower s = map lower_char s"

subsection \<open>\<open>scipy.stats.norm\<close>: density and distribution function of N(0,1)\<close>

definition norm_pdf :: "real \<Rightarrow> real" where
  "norm_pdf x = exp (- x\<^sup>2 / 2) / sqrt (2 * pi)"

text \<open>The distribution function through its Maclaurin series, the termwise integral
  from 0 to \<open>x\<close> of the series of \<open>norm_pdf\<close>, plus the mass \<open>1/2\<close> of the negative
  half line.\<close>

definition cdf_term :: "real \<Rightarrow> nat \<Rightarrow> real" where
  "cdf_term x n = (- 1) ^ n * x ^ (2 * n + 1) / (2 ^ n * fact n * real (2 * n + 1))"

definition norm_cdf :: "real \<Rightarrow> real" where
  "norm_cdf x = 1 / 2 + (\<Sum>n. cdf_term x n) / sqrt (2 * pi)"

subsection \<open>\<open>class BSMAnalytical\<close>\<close>

text \<open>The attributes \<open>self.S\<close>, ..., \<open>self.option_type\<close>.\<close>

record BSMAnalytical =
  bsm_S :: real
  bsm_K :: real
  bsm_T :: real
  bsm_r :: real
  bsm_sigma :: real
  bsm_c :: real
  bsm_option_type :: string

definition BSMAnalytical_init ::
  "real \<Rightarrow> real \<Rightarrow> real \<Rightarrow> real \<Rightarrow> real \<Rightarrow> real \<Rightarrow> string \<Rightarrow> py_error + BSMAnalytical" where
  "BSMAnalytical_init S K T r sigma c option_type =
     (let self = \<lparr>bsm_S = S, bsm_K = K, bsm_T = T, bsm_r = r, bsm_sigma = sigma, bsm_c = c,
                   bsm_option_type = lower option_type\<rparr>
      in if bsm_option_type self \<notin> {''call'', ''put''} then Inl ValueError
         else if T \<le> 0 \<or> sigma \<le> 0 then Inl ValueError
         else Inr self)"

definition BSMAnalytical_d1_d2 :: "BSMAnalytical \<Rightarrow> py_error + (real \<times> real)" where
  "BSMAnalytical_d1_d2 self =
     bind_e (py_sqrt (bsm_T self)) (\<lambda>sq.
       let sigma_sqrt_T = bsm_sigma self * sq in
       bind_e (py_div (bsm_S self) (bsm_K self)) (\<lambda>m.
       bind_e (py_log m) (\<lambda>l.
       bind_e (py_div (l + (bsm_r self - bsm_c self + (5 / 10) * (bsm_sigma self)\<^sup>2)
                             * bsm_T self) sigma_sqrt_T) (\<lambda>d1.
       let d2 = d1 - sigma_sqrt_T in Inr (d1, d2)))))"

definition BSMAnalytical_price :: "BSMAnalytical \<Rightarrow> py_error + real" where
  "BSMAnalytical_price self =
     bind_e (BSMAnalytical_d1_d2 self) (\<lambda>(d1, d2).
       if bsm_option_type self = ''call''
       then Inr (bsm_S self * exp (- bsm_c self * bsm_T self) * norm_cdf d1
                 - bsm_K self * exp (- bsm_r self * bsm_T self) * norm_cdf d2)
       else Inr (bsm_K self * exp (- bsm_r self * bsm_T self) * norm_cdf (- d2)
                 - bsm_S self * exp (- bsm_c self * bsm_T self) * norm_cdf (- d1)))"

definition BSMAnalytical_delta :: "BSMAnalytical \<Rightarrow> py_error + real" where
  "BSMAnalytical_delta self =
     bind_e (BSMAnalytical_d1_d2 self) (\<lambda>(d1, d2).
       if bsm_option_type self = ''call''
       then Inr (exp (- bsm_c self * bsm_T self) * norm_cdf d1)
       else Inr (- exp (- bsm_c self * bsm_T self) * norm_cdf (- d1)))"

definition BSMAnalytical_gamma :: "BSMAnalytical \<Rightarrow> py_error + real" where
  "BSMAnalytical_gamma self =
     bind_e (BSMAnalytical_d1_d2 self) (\<lambda>(d1, d2).
     bind_e (py_sqrt (bsm_T self)) (\<lambda>sq.
       py_div (exp (- bsm_c self * bsm_T self) * norm_pdf d1)
              (bsm_S self * bsm_sigma self * sq)))"

definition BSMAnalytical_vega :: "BSMAnalytical \<Rightarrow> py_error + real" where
  "BSMAnalytical_vega self =
     bind_e (BSMAnalytical_d1_d2 self) (\<lambda>(d1, d2).
     bind_e (py_sqrt (bsm_T self)) (\<lambda>sq.
       Inr (bsm_S self * exp (- bsm_c self * bsm_T self) * norm_pdf d1 * sq)))"

definition BSMAnalytical_theta :: "BSMAnalytical \<Rightarrow> py_error + real" where
  "BSMAnalytical_theta self =
     bind_e (BSMAnalytical_d1_d2 self) (\<lambda>(d1, d2).
     bind_e (py_sqrt (bsm_T self)) (\<lambda>sq.
     bind_e (py_div (bsm_S self * exp (- bsm_c self * bsm_T self) * norm_pdf d1 * bsm_sigma self)
                    (2 * sq)) (\<lambda>t1.
       let term1 = - t1 in
       if bsm_option_type self = ''call''
       then (let term2 = - bsm_r self * bsm_K self * exp (- bsm_r self * bsm_T self) * norm_cdf d2;
                 term3 = bsm_c self * bsm_S self * exp (- bsm_c self * bsm_T self) * norm_cdf d1
             in Inr (term1 + term2 + term3))
       else (let term2 = bsm_r self * bsm_K self * exp (- bsm_r self * bsm_T self)
                           * norm_cdf (- d2);
                 term3 = - bsm_c self * bsm_S self * exp (- bsm_c self * bsm_T self)
                           * norm_cdf (- d1)
             in Inr (term1 + term2 + term3)))))"

definition BSMAnalytical_rho :: "BSMAnalytical \<Rightarrow> py_error + real" where
  "BSMAnalytical_rho self =
     bind_e (BSMAnalytical_d1_d2 self) (\<lambda>(d1, d2).
       if bsm_option_type self = ''call''
       then Inr (bsm_K self * bsm_T self * exp (- bsm_r self * bsm_T self) * norm_cdf d2)
       else Inr (- bsm_K self * bsm_T self * exp (- bsm_r self * bsm_T self) * norm_cdf (- d2)))"

text \<open>The dict of \<open>all_greeks\<close>, as the list of its items in insertion order; the values
  are computed in that order, so the first method that raises decides the exception.\<close>

definition BSMAnalytical_all_greeks :: "BSMAnalytical \<Rightarrow> py_error + (string \<times> real) list" where
  "BSMAnalytical_all_greeks self =
     bind_e (BSMAnalytical_price self) (\<lambda>v_price.
     bind_e (BSMAnalytical_delta self) (\<lambda>v_delta.
     bind_e (BSMAnalytical_gamma self) (\<lambda>v_gamma.
     bind_e (BSMAnalytical_vega self) (\<lambda>v_vega.
     bind_e (BSMAnalytical_vega self) (\<lambda>v_vega'.
     bind_e (BSMAnalytical_theta self) (\<lambda>v_theta.
     bind_e (BSMAnalytical_theta self) (\<lambda>v_theta'.
     bind_e (BSMAnalytical_rho self) (\<lambda>v_rho.
     bind_e (BSMAnalytical_rho self) (\<lambda>v_rho'.
       Inr [(''Price'', v_price),
            (''Delta'', v_delta),
            (''Gamma'', v_gamma),
            (''Vega (per 1.0 vol)'', v_vega),
            (''Vega (per 1% vol)'', v_vega' * (1 / 100)),
            (''Theta (annual)'', v_theta),
            (''Theta (per day)'', v_theta' / 365),
            (''Rho (per 1.0 rate)'', v_rho),
            (''Rho (per 1% rate)'', v_rho' * (1 / 100))])))))))))"

text \<open>The keys of that dict other than \<open>'Price'\<close>, in order.\<close>

definition greek_names :: "string list" where
  "greek_names = [''Delta'', ''Gamma'', ''Vega (per 1.0 vol)'', ''Vega (per 1% vol)'',
     ''Theta (annual)'', ''Theta (per day)'', ''Rho (per 1.0 rate)'', ''Rho (per 1% rate)'']"

text \<open>The expression \<open>BSMAnalytical(S, K, T, r, sigma, c, option_type).price()\<close>.\<close>

definition BSMAnalytical_new_price ::
  "real \<Rightarrow> real \<Rightarrow> real \<Rightarrow> real \<Rightarrow> real \<Rightarrow> real \<Rightarrow> string \<Rightarrow> py_error + real" where
  "BSMAnalytical_new_price S K T r sigma c option_type =
     bind_e (BSMAnalytical_init S K T r sigma c option_type) BSMAnalytical_price"

text \<open>The quantities \<open>d1\<close> and \<open>d2\<close> as the specification words them, to compare with
  \<open>BSMAnalytical_d1_d2\<close>.\<close>

definition spec_d1 :: "real \<Rightarrow> real \<Rightarrow> real \<Rightarrow> real \<Rightarrow> real \<Rightarrow> real \<Rightarrow> real" where
  "spec_d1 S K T r sigma c = (ln (S / K) + (r - c + sigma\<^sup>2 / 2) * T) / (sigma * sqrt T)"

definition spec_d2 :: "real \<Rightarrow> real \<Rightarrow> real \<Rightarrow> real \<Rightarrow> real \<Rightarrow> real \<Rightarrow> real" where
  "spec_d2 S K T r sigma c = spec_d1 S K T r sigma c - sigma * sqrt T"

subsection \<open>\<open>implied_volatility\<close>\<close>

text \<open>How the Newton \<open>for\<close> loop ends: by \<open>return sigma\<close>, or by \<open>break\<close> or exhaustion,
  after which the bisection phase runs.\<close>

datatype newton_exit = Returned real | Fallthrough

fun newton_loop ::
  "real \<Rightarrow> real \<Rightarrow> real \<Rightarrow> real \<Rightarrow> real \<Rightarrow> real \<Rightarrow> string \<Rightarrow> real \<Rightarrow> nat \<Rightarrow> real
     \<Rightarrow> py_error + newton_exit" where
  "newton_loop market_price S K T r c option_type tol 0 sigma = Inr Fallthrough"
| "newton_loop market_price S K T r c option_type tol (Suc k) sigma =
     bind_e (BSMAnalytical_init S K T r sigma c option_type) (\<lambda>bsm.
     bind_e (BSMAnalytical_price bsm) (\<lambda>v_price.
     bind_e (BSMAnalytical_vega bsm) (\<lambda>v_vega.
       let diff = v_price - market_price in
       if \<bar>diff\<bar> < tol then Inr (Returned sigma)
       else if v_vega < 1 / 10 ^ 8 then Inr Fallthrough
       else bind_e (py_div diff v_vega) (\<lambda>step.
         let sigma_new = sigma - step in
         if sigma_new < 1 / 10 ^ 8 \<or> sigma_new > 5 then Inr Fallthrough
         else newton_loop market_price S K T r c option_type tol k sigma_new))))"

fun bisection_loop ::
  "real \<Rightarrow> real \<Rightarrow> real \<Rightarrow> real \<Rightarrow> real \<Rightarrow> real \<Rightarrow> string \<Rightarrow> real \<Rightarrow> nat \<Rightarrow> real \<Rightarrow> real
     \<Rightarrow> py_error + real" where
  "bisection_loop market_price S K T r c option_type tol 0 low high = Inr ((low + high) / 2)"
| "bisection_loop market_price S K T r c option_type tol (Suc k) low high =
     (let mid = (low + high) / 2 in
      bind_e (BSMAnalytical_init S K T r mid c option_type) (\<lambda>bsm.
      bind_e (BSMAnalytical_price bsm) (\<lambda>v_price.
        if \<bar>v_price - market_price\<bar> < tol then Inr mid
        else if v_price > market_price
        then bisection_loop market_price S K T r c option_type tol k low mid
        else bisection_loop market_price S K T r c option_type tol k mid high)))"

text \<open>\<open>tol\<close> and \<open>max_iter\<close> default to \<open>1e-8\<close> and \<open>100\<close>; \<open>range(max_iter)\<close> has
  \<open>nat max_iter\<close> elements.\<close>

definition implied_volatility ::
  "real \<Rightarrow> real \<Rightarrow> real \<Rightarrow> real \<Rightarrow> real \<Rightarrow> real \<Rightarrow> string \<Rightarrow> real \<Rightarrow> int \<Rightarrow> py_error + real" where
  "implied_volatility market_price S K T r c option_type tol max_iter =
     (if market_price < 0 then Inl ValueError
      else
        let intrinsic =
              (if option_type = ''call'' then max (S * exp (- c * T) - K * exp (- r * T)) 0
               else max (K * exp (- r * T) - S * exp (- c * T)) 0)
        in if market_price \<le> intrinsic then Inr (1 / 10 ^ 8)
           else
             bind_e (newton_loop market_price S K T r c option_type tol (nat max_iter) (2 / 10))
               (\<lambda>e. case e of
                  Returned sigma \<Rightarrow> Inr sigma
                | Fallthrough \<Rightarrow>
                    bisection_loop market_price S K T r c option_type tol (nat max_iter)
                      (1 / 10 ^ 8) 5))"

subsection \<open>\<open>baw_american_call\<close>, \<open>baw_american_put\<close>\<close>

text \<open>Over exact reals: the roots \<open>q2\<close> and \<open>q1\<close> of the quadratic are real numbers here,
  while the code computes them in double arithmetic, so whether a computed root is exactly
  1 depends on rounding. Nothing general is stated below about that case.\<close>

definition baw_american_call ::
  "real \<Rightarrow> real \<Rightarrow> real \<Rightarrow> real \<Rightarrow> real \<Rightarrow> real \<Rightarrow> py_error + real" where
  "baw_american_call S K T r sigma c =
     (if c \<ge> r then
        bind_e (BSMAnalytical_init S K T r sigma c ''call'') BSMAnalytical_price
      else
        bind_e (py_sqrt ((r - c - sigma\<^sup>2 / 2)\<^sup>2 + 2 * r * sigma\<^sup>2)) (\<lambda>root.
        bind_e (py_div (- (r - c - sigma\<^sup>2 / 2) + root) (sigma\<^sup>2)) (\<lambda>q2.
        bind_e (py_div 1 q2) (\<lambda>inv_q2.
        bind_e (py_div K (1 - inv_q2)) (\<lambda>S_star.
          if S \<ge> S_star then Inr (S - K)
          else
            bind_e (BSMAnalytical_init S K T r sigma c ''call'') (\<lambda>bsm.
            bind_e (BSMAnalytical_price bsm) (\<lambda>european.
            bind_e (py_div S K) (\<lambda>m.
            bind_e (py_log m) (\<lambda>l.
            bind_e (py_sqrt T) (\<lambda>sq.
            bind_e (py_div (l + (r - c + sigma\<^sup>2 / 2) * T) (sigma * sq)) (\<lambda>d1.
            bind_e (py_div S_star q2) (\<lambda>lead.
            bind_e (py_sqrt T) (\<lambda>sq'.
              let A2 = lead * (1 - exp (- c * T) * norm_cdf (d1 + sigma * sq')) in
              bind_e (py_div S S_star) (\<lambda>ratio.
              bind_e (py_pow ratio q2) (\<lambda>pw.
                Inr (european + A2 * pw))))))))))))))))"

definition baw_american_put ::
  "real \<Rightarrow> real \<Rightarrow> real \<Rightarrow> real \<Rightarrow> real \<Rightarrow> real \<Rightarrow> py_error + real" where
  "baw_american_put S K T r sigma c =
     bind_e (py_sqrt ((r - c - sigma\<^sup>2 / 2)\<^sup>2 + 2 * r * sigma\<^sup>2)) (\<lambda>root.
     bind_e (py_div (- (r - c - sigma\<^sup>2 / 2) - root) (sigma\<^sup>2)) (\<lambda>q1.
     bind_e (py_div 1 q1) (\<lambda>inv_q1.
     bind_e (py_div K (1 - inv_q1)) (\<lambda>S_star.
       if S \<le> S_star then Inr (K - S)
       else
         bind_e (BSMAnalytical_init S K T r sigma c ''put'') (\<lambda>bsm.
         bind_e (BSMAnalytical_price bsm) (\<lambda>european.
         bind_e (py_div S K) (\<lambda>m.
         bind_e (py_log m) (\<lambda>l.
         bind_e (py_sqrt T) (\<lambda>sq.
         bind_e (py_div (l + (r - c + sigma\<^sup>2 / 2) * T) (sigma * sq)) (\<lambda>d1.
         bind_e (py_div (- S_star) q1) (\<lambda>lead.
         bind_e (py_sqrt T) (\<lambda>sq'.
           let A1 = lead * (1 - exp (- c * T) * norm_cdf (- (d1 + sigma * sq'))) in
           bind_e (py_div S S_star) (\<lambda>ratio.
           bind_e (py_pow ratio q1) (\<lambda>pw.
             Inr (european + A1 * pw)))))))))))))))"

subsection \<open>Double-precision rounding\<close>

text \<open>Round to the nearest integer, ties to the even one.\<close>

definition round_half_even :: "real \<Rightarrow> int" where
  "round_half_even y =
     (let f = \<lfloor>y\<rfloor>; d = y - of_int f
      in if d < 1 / 2 then f else if d > 1 / 2 then f + 1 else if even f then f else f + 1)"

text \<open>The double nearest to \<open>x\<close> (53-bit significand, ties to even), with the exponent
  range left unbounded: for \<open>2\<^sup>e \<le> |x| < 2\<^sup>e\<^sup>+\<^sup>1\<close> the result is a multiple of
  \<open>2\<^sup>e\<^sup>-\<^sup>5\<^sup>2\<close>.\<close>

definition fl64 :: "real \<Rightarrow> real" where
  "fl64 x =
     (if x = 0 then 0
      else let e = \<lfloor>log 2 \<bar>x\<bar>\<rfloor>
           in of_int (round_half_even (x * 2 powr (52 - of_int e))) * 2 powr (of_int e - 52))"

text \<open>Float division and \<open>math.sqrt\<close> with their rounding.\<close>

definition py_div64 :: "real \<Rightarrow> real \<Rightarrow> py_error + real" where
  "py_div64 a b = (if b = 0 then Inl ZeroDivisionError else Inr (fl64 (a / b)))"

definition py_sqrt64 :: "real \<Rightarrow> py_error + real" where
  "py_sqrt64 x = (if x < 0 then Inl ValueError else Inr (fl64 (sqrt x)))"

subsection \<open>\<open>class BinomialTree\<close>, \<open>class TrinomialTree\<close>: construction\<close>

text \<open>\<open>stock_tree[j, i]\<close> of the numpy array, as a list of rows. The loops of
  \<open>__init__\<close> run only for \<open>n \<ge> 1\<close> and stay inside the \<open>(n + 1) \<times> (n + 1)\<close> array.\<close>

text \<open>\<open>BinomialTree.__init__\<close> is modelled over exact reals, where \<open>u = d\<close> only for
  \<open>sigma * sqrt dt = 0\<close>; in double arithmetic \<open>u\<close> can also round to 1 or underflow to 0
  for extreme \<open>sigma\<close>, and the divisions then raise. Nothing below relies on \<open>u \<noteq> d\<close>
  except at the one input \<open>sigma = -0.2\<close>.\<close>

definition get2 :: "real list list \<Rightarrow> nat \<Rightarrow> nat \<Rightarrow> real" where
  "get2 a j i = a ! j ! i"

definition set2 :: "real list list \<Rightarrow> nat \<Rightarrow> nat \<Rightarrow> real \<Rightarrow> real list list" where
  "set2 a j i v = a[j := (a ! j)[i := v]]"

record BinomialTree =
  bt_T :: real
  bt_S0 :: real
  bt_r :: real
  bt_sigma :: real
  bt_c :: real
  bt_K :: real
  bt_n :: int
  bt_option_type :: string
  bt_dt :: real
  bt_u :: real
  bt_d :: real
  bt_q :: real
  bt_R :: real
  bt_stock_tree :: "real list list"

definition fill_stock_tree :: "real \<Rightarrow> real \<Rightarrow> nat \<Rightarrow> real list list \<Rightarrow> real list list" where
  "fill_stock_tree u d n tree =
     fold (\<lambda>i a.
        fold (\<lambda>j a'. set2 a' j i (get2 a' (j - 1) (i - 1) * d)) [1..<i + 1]
          (set2 a 0 i (get2 a 0 (i - 1) * u)))
       [1..<n + 1] tree"

definition BinomialTree_init ::
  "real \<Rightarrow> real \<Rightarrow> real \<Rightarrow> real \<Rightarrow> real \<Rightarrow> real \<Rightarrow> int \<Rightarrow> string \<Rightarrow> py_error + BinomialTree" where
  "BinomialTree_init T S0 r sigma c K n option_type =
     bind_e (py_div T (of_int n)) (\<lambda>dt.
     bind_e (py_sqrt dt) (\<lambda>sq.
       let u = exp (sigma * sq) in
       bind_e (py_div 1 u) (\<lambda>d.
       bind_e (py_div (exp ((r - c) * dt) - d) (u - d)) (\<lambda>q.
         let R = exp (r * dt) in
         if n + 1 < 0 then Inl ValueError
         else
           let zeros = replicate (nat (n + 1)) (replicate (nat (n + 1)) (0 :: real)) in
           if n + 1 = 0 then Inl IndexError
           else
             Inr \<lparr>bt_T = T, bt_S0 = S0, bt_r = r, bt_sigma = sigma, bt_c = c, bt_K = K,
                  bt_n = n, bt_option_type = lower option_type, bt_dt = dt, bt_u = u,
                  bt_d = d, bt_q = q, bt_R = R,
                  bt_stock_tree = fill_stock_tree u d (nat n) (set2 zeros 0 0 S0)\<rparr>))))"

record TrinomialTree =
  tt_T :: real
  tt_S0 :: real
  tt_r :: real
  tt_sigma :: real
  tt_c :: real
  tt_K :: real
  tt_n :: int
  tt_option_type :: string
  tt_dt :: real
  tt_dr :: real
  tt_p_u :: real
  tt_p_d :: real
  tt_p_m :: real
  tt_R :: real

text \<open>\<open>TrinomialTree.__init__\<close> in double arithmetic: each \<open>+\<close>, \<open>-\<close>, \<open>*\<close>, \<open>/\<close> and
  \<open>math.sqrt\<close> is the exact result rounded by \<open>fl64\<close>; \<open>sigma**2\<close> and \<open>math.exp\<close> are
  taken as correctly rounded too. \<open>r - c - 0.5 * sigma**2\<close> associates to the left, and so
  does \<open>1 - self.p_u - self.p_d\<close>.\<close>

definition TrinomialTree_init ::
  "real \<Rightarrow> real \<Rightarrow> real \<Rightarrow> real \<Rightarrow> real \<Rightarrow> real \<Rightarrow> int \<Rightarrow> string \<Rightarrow> py_error + TrinomialTree" where
  "TrinomialTree_init T S0 r sigma c K n option_type =
     bind_e (py_div64 T (of_int n)) (\<lambda>dt.
     bind_e (py_sqrt64 (fl64 (3 * dt))) (\<lambda>sq3.
       let dr = fl64 (sigma * sq3) in
       bind_e (py_sqrt64 dt) (\<lambda>sq.
       bind_e (py_div64 (fl64 (fl64 (fl64 (r - c) - fl64 ((5 / 10) * fl64 (sigma\<^sup>2))) * sq))
                        (fl64 (fl64 (2 * sigma) * fl64 (sqrt 3)))) (\<lambda>drift.
         let p_u = fl64 (fl64 (1 / 6) + drift) in
         bind_e (py_sqrt64 dt) (\<lambda>sq'.
         bind_e (py_div64 (fl64 (fl64 (fl64 (r - c) - fl64 ((5 / 10) * fl64 (sigma\<^sup>2))) * sq'))
                          (fl64 (fl64 (2 * sigma) * fl64 (sqrt 3)))) (\<lambda>drift'.
           let p_d = fl64 (fl64 (1 / 6) - drift');
               p_m = fl64 (fl64 (1 - p_u) - p_d);
               p_u' = max p_u 0;
               p_d' = max p_d 0;
               p_m' = fl64 (fl64 (1 - p_u') - p_d');
               R = fl64 (exp (fl64 (r * dt)))
           in Inr \<lparr>tt_T = T, tt_S0 = S0, tt_r = r, tt_sigma = sigma, tt_c = c, tt_K = K,
                     tt_n = n, tt_option_type = lower option_type, tt_dt = dt, tt_dr = dr,
                     tt_p_u = p_u', tt_p_d = p_d', tt_p_m = p_m', tt_R = R\<rparr>))))))"

subsection \<open>The \<open>/price\<close> handler of app.py\<close>

text \<open>\<open>validate_float\<close> on a number: the bounds that are not \<open>None\<close> are checked.\<close>

definition validate_float :: "real \<Rightarrow> real option \<Rightarrow> real option \<Rightarrow> py_error + real" where
  "validate_float x min_val max_val =
     (if (case min_val of None \<Rightarrow> False | Some lo \<Rightarrow> x < lo) then Inl ValueError
      else if (case max_val of None \<Rightarrow> False | Some hi \<Rightarrow> x > hi) then Inl ValueError
      else Inr x)"

datatype response =
    Status400
  | Status500
  | Status200 real "(string \<times> real) list"   \<comment> \<open>the fields \<open>price\<close> and \<open>greeks\<close> of the JSON body\<close>

text \<open>\<open>price_option\<close> on a JSON body whose numeric fields are the given numbers and whose
  \<open>option_type\<close> and \<open>model\<close> are the given strings. \<open>round6\<close> stands for the builtin
  \<open>round(\<cdot>, 6)\<close>. \<open>price_option_try\<close> is the body of the \<open>try\<close>; \<open>ValueError\<close> is
  answered with status 400, every other exception with status 500.\<close>

definition price_option_try ::
  "(real \<Rightarrow> real) \<Rightarrow> real \<Rightarrow> real \<Rightarrow> real \<Rightarrow> real \<Rightarrow> real \<Rightarrow> real \<Rightarrow> string \<Rightarrow> string
     \<Rightarrow> py_error + response" where
  "price_option_try round6 S_in K_in T_in r_in sigma_in c_in option_type_in model_in =
     bind_e (validate_float S_in (Some (1 / 100)) None) (\<lambda>S.
     bind_e (validate_float K_in (Some (1 / 100)) None) (\<lambda>K.
     bind_e (validate_float T_in (Some (1 / 10 ^ 6)) (Some 10)) (\<lambda>T.
     bind_e (validate_float r_in (Some (- 1)) (Some 1)) (\<lambda>r.
     bind_e (validate_float sigma_in (Some (1 / 10 ^ 6)) (Some 5)) (\<lambda>sigma.
     bind_e (validate_float c_in (Some 0) (Some 1)) (\<lambda>c.
       let option_type = lower option_type_in;
           model = lower model_in
       in
         if option_type \<notin> {''call'', ''put''} then Inr Status400
         else if model \<notin> {''bsm'', ''baw''} then Inr Status400
         else
           bind_e
             (if model = ''bsm'' then
                bind_e (BSMAnalytical_init S K T r sigma c option_type) (\<lambda>bsm.
                bind_e (BSMAnalytical_price bsm) (\<lambda>v_price.
                bind_e (BSMAnalytical_all_greeks bsm) (\<lambda>items.
                  Inr (v_price, filter (\<lambda>(k, v). k \<noteq> ''Price'') items))))
              else
                bind_e (if option_type = ''call'' then baw_american_call S K T r sigma c
                        else baw_american_put S K T r sigma c) (\<lambda>v_price.
                  Inr (v_price, [])))
             (\<lambda>(v_price, greeks).
                Inr (Status200 (round6 v_price) (map (\<lambda>(k, v). (k, round6 v)) greeks)))))))))"

definition price_option ::
  "(real \<Rightarrow> real) \<Rightarrow> real \<Rightarrow> real \<Rightarrow> real \<Rightarrow> real \<Rightarrow> real \<Rightarrow> real \<Rightarrow> string \<Rightarrow> string \<Rightarrow> response" where
  "price_option round6 S_in K_in T_in r_in sigma_in c_in option_type_in model_in =
     (case price_option_try round6 S_in K_in T_in r_in sigma_in c_in option_type_in model_in of
        Inl ValueError \<Rightarrow> Status400
      | Inl _ \<Rightarrow> Status500
      | Inr resp \<Rightarrow> resp)"

section \<open>Properties\<close>

lemma lower_call [simp]: "lower ''call'' = ''call''"
  by (simp add: lower_def lower_char_def)

lemma lower_put [simp]: "lower ''put'' = ''put''"
  by (simp add: lower_def lower_char_def)

subsection \<open>The normal distribution function\<close>

lemma cdf_term_bound: "norm (cdf_term x n) \<le> \<bar>x\<bar> * (inverse (fact n) * (x\<^sup>2 / 2) ^ n)"
proof -
  have "norm (cdf_term x n) = \<bar>x\<bar> ^ (2 * n + 1) / (2 ^ n * fact n * real (2 * n + 1))"
    by (simp add: cdf_term_def abs_mult power_abs)
  also have "\<dots> \<le> \<bar>x\<bar> ^ (2 * n + 1) / (2 ^ n * fact n)"
  proof (rule frac_le)
    have "(2::real) ^ n * fact n * 1 \<le> 2 ^ n * fact n * real (2 * n + 1)"
      by (intro mult_left_mono) auto
    then show "(2::real) ^ n * fact n \<le> 2 ^ n * fact n * real (2 * n + 1)" by simp
  qed auto
  also have "\<dots> = \<bar>x\<bar> * (inverse (fact n) * (x\<^sup>2 / 2) ^ n)"
  proof -
    have "\<bar>x\<bar> ^ (2 * n + 1) = \<bar>x\<bar> * (x\<^sup>2) ^ n"
      by (simp add: power_mult)
    then show ?thesis
      by (simp add: power_divide field_simps)
  qed
  finally show ?thesis .
qed

lemma summable_cdf_term: "summable (cdf_term x)"
proof (rule summable_comparison_test')
  show "summable (\<lambda>n. \<bar>x\<bar> * (inverse (fact n) * (x\<^sup>2 / 2) ^ n))"
    by (intro summable_mult summable_exp)
  show "\<And>n. n \<ge> 0 \<Longrightarrow> norm (cdf_term x n) \<le> \<bar>x\<bar> * (inverse (fact n) * (x\<^sup>2 / 2) ^ n)"
    by (rule cdf_term_bound)
qed

lemma cdf_term_minus: "cdf_term (- x) n = - cdf_term x n"
  by (simp add: cdf_term_def)

lemma norm_cdf_minus: "norm_cdf (- x) = 1 - norm_cdf x"
proof -
  have "(\<Sum>n. cdf_term (- x) n) = - (\<Sum>n. cdf_term x n)"
    by (simp add: cdf_term_minus suminf_minus [OF summable_cdf_term])
  then show ?thesis
    by (simp add: norm_cdf_def field_simps)
qed

lemma norm_cdf_zero: "norm_cdf 0 = 1 / 2"
  by (simp add: norm_cdf_def cdf_term_def)

subsection \<open>Construction and price of \<open>BSMAnalytical\<close>\<close>

lemma bind_e_simps [simp]:
  "bind_e (Inl e) f = Inl e"
  "bind_e (Inr x) f = f x"
  by (simp_all add: bind_e_def)

lemma lower_examples:
  "lower ''CALL'' = ''call''" "lower ''Put'' = ''put''" "lower ''xyz'' = ''xyz''"
  by code_simp+

lemma BSMAnalytical_init_eq:
  "BSMAnalytical_init S K T r sigma c ot =
     (if lower ot \<notin> {''call'', ''put''} \<or> T \<le> 0 \<or> sigma \<le> 0 then Inl ValueError
      else Inr \<lparr>bsm_S = S, bsm_K = K, bsm_T = T, bsm_r = r, bsm_sigma = sigma, bsm_c = c,
                 bsm_option_type = lower ot\<rparr>)"
  by (simp add: BSMAnalytical_init_def Let_def)

lemma d1_d2_valid:
  assumes "0 < S" "0 < K" "0 < T" "0 < sigma"
  shows "BSMAnalytical_d1_d2 \<lparr>bsm_S = S, bsm_K = K, bsm_T = T, bsm_r = r, bsm_sigma = sigma,
            bsm_c = c, bsm_option_type = ot\<rparr>
         = Inr (spec_d1 S K T r sigma c, spec_d2 S K T r sigma c)"
proof -
  from assms have "0 < S / K" by simp
  with assms show ?thesis
    by (simp add: BSMAnalytical_d1_d2_def py_sqrt_def py_div_def py_log_def Let_def
        spec_d1_def spec_d2_def not_le)
qed

lemma new_price_call:
  assumes "0 < S" "0 < K" "0 < T" "0 < sigma" "lower ot = ''call''"
  shows "BSMAnalytical_new_price S K T r sigma c ot =
              Inr (S * exp (- c * T) * norm_cdf (spec_d1 S K T r sigma c)
                   - K * exp (- r * T) * norm_cdf (spec_d2 S K T r sigma c))"
  using assms
  by (simp add: BSMAnalytical_new_price_def BSMAnalytical_init_eq BSMAnalytical_price_def
      d1_d2_valid)

lemma new_price_put:
  assumes "0 < S" "0 < K" "0 < T" "0 < sigma" "lower ot = ''put''"
  shows "BSMAnalytical_new_price S K T r sigma c ot =
              Inr (K * exp (- r * T) * norm_cdf (- spec_d2 S K T r sigma c)
                   - S * exp (- c * T) * norm_cdf (- spec_d1 S K T r sigma c))"
  using assms
  by (simp add: BSMAnalytical_new_price_def BSMAnalytical_init_eq BSMAnalytical_price_def
      d1_d2_valid)

text \<open>
  \<^bold>\<open>C1.\<close> For \<open>S > 0\<close>, \<open>K > 0\<close>, \<open>T > 0\<close>, \<open>sigma > 0\<close>, constructing the pricer and calling
  \<open>price()\<close> returns \<open>S e\<^sup>-\<^sup>c\<^sup>T \<Phi>(d1) - K e\<^sup>-\<^sup>r\<^sup>T \<Phi>(d2)\<close> for a call and
  \<open>K e\<^sup>-\<^sup>r\<^sup>T \<Phi>(-d2) - S e\<^sup>-\<^sup>c\<^sup>T \<Phi>(-d1)\<close> for a put, with \<open>d1\<close> and \<open>d2\<close> as the
  specification writes them. The option type is compared after \<open>lower()\<close>.
\<close>

theorem BSMAnalytical_price_formula:
  assumes "0 < S" "0 < K" "0 < T" "0 < sigma"
  shows "(lower ot = ''call'' \<longrightarrow>
            BSMAnalytical_new_price S K T r sigma c ot =
              Inr (S * exp (- c * T) * norm_cdf (spec_d1 S K T r sigma c)
                   - K * exp (- r * T) * norm_cdf (spec_d2 S K T r sigma c)))
       \<and> (lower ot = ''put'' \<longrightarrow>
            BSMAnalytical_new_price S K T r sigma c ot =
              Inr (K * exp (- r * T) * norm_cdf (- spec_d2 S K T r sigma c)
                   - S * exp (- c * T) * norm_cdf (- spec_d1 S K T r sigma c)))"
  using assms by (simp add: new_price_call new_price_put)

theorem BSMAnalytical_price_formula_witness:
  "BSMAnalytical_new_price 100 100 1 (5 / 100) (2 / 10) 0 ''call'' =
     Inr (100 * exp (- 0 * 1) * norm_cdf (spec_d1 100 100 1 (5 / 100) (2 / 10) 0)
          - 100 * exp (- (5 / 100) * 1) * norm_cdf (spec_d2 100 100 1 (5 / 100) (2 / 10) 0))
   \<and> BSMAnalytical_new_price 100 100 1 (5 / 100) (2 / 10) 0 ''Put'' =
     Inr (100 * exp (- (5 / 100) * 1) * norm_cdf (- spec_d2 100 100 1 (5 / 100) (2 / 10) 0)
          - 100 * exp (- 0 * 1) * norm_cdf (- spec_d1 100 100 1 (5 / 100) (2 / 10) 0))"
  using BSMAnalytical_price_formula [of 100 100 1 "2 / 10" "''call''" "5 / 100" 0]
        BSMAnalytical_price_formula [of 100 100 1 "2 / 10" "''Put''" "5 / 100" 0]
  by (simp add: lower_examples)

text \<open>
  \<^bold>\<open>C2.\<close> Put-call parity: for \<open>S > 0\<close>, \<open>K > 0\<close>, \<open>T > 0\<close>, \<open>sigma > 0\<close> both prices are
  returned, and the call price minus the put price is \<open>S e\<^sup>-\<^sup>c\<^sup>T - K e\<^sup>-\<^sup>r\<^sup>T\<close>.
\<close>

theorem put_call_parity:
  assumes "0 < S" "0 < K" "0 < T" "0 < sigma"
  shows "\<exists>call put.
           BSMAnalytical_new_price S K T r sigma c ''call'' = Inr call
         \<and> BSMAnalytical_new_price S K T r sigma c ''put'' = Inr put
         \<and> call - put = S * exp (- c * T) - K * exp (- r * T)"
proof (intro exI conjI)
  show "BSMAnalytical_new_price S K T r sigma c ''call'' =
          Inr (S * exp (- c * T) * norm_cdf (spec_d1 S K T r sigma c)
               - K * exp (- r * T) * norm_cdf (spec_d2 S K T r sigma c))"
    using assms by (simp add: new_price_call)
  show "BSMAnalytical_new_price S K T r sigma c ''put'' =
          Inr (K * exp (- r * T) * norm_cdf (- spec_d2 S K T r sigma c)
               - S * exp (- c * T) * norm_cdf (- spec_d1 S K T r sigma c))"
    using assms by (simp add: new_price_put)
  show "S * exp (- c * T) * norm_cdf (spec_d1 S K T r sigma c)
          - K * exp (- r * T) * norm_cdf (spec_d2 S K T r sigma c)
          - (K * exp (- r * T) * norm_cdf (- spec_d2 S K T r sigma c)
             - S * exp (- c * T) * norm_cdf (- spec_d1 S K T r sigma c))
        = S * exp (- c * T) - K * exp (- r * T)"
    by (simp add: norm_cdf_minus algebra_simps)
qed

theorem put_call_parity_witness:
  "\<exists>call put.
     BSMAnalytical_new_price 100 90 (1 / 2) (5 / 100) (3 / 10) (1 / 100) ''call'' = Inr call
   \<and> BSMAnalytical_new_price 100 90 (1 / 2) (5 / 100) (3 / 10) (1 / 100) ''put'' = Inr put
   \<and> call - put = 100 * exp (- (1 / 100) * (1 / 2)) - 90 * exp (- (5 / 100) * (1 / 2))"
proof -
  have "(0::real) < 100" "(0::real) < 90" "(0::real) < 1 / 2" "(0::real) < 3 / 10"
    by simp_all
  then show ?thesis by (rule put_call_parity)
qed

text \<open>
  \<^bold>\<open>C4.\<close> When \<open>c \<ge> r\<close>, \<open>baw_american_call\<close> is the call of
  \<open>BSMAnalytical(S, K, T, r, sigma, c, 'call').price()\<close>: the same result, the same exception
  when there is one; for \<open>S > 0\<close>, \<open>K > 0\<close>, \<open>T > 0\<close>, \<open>sigma > 0\<close> it is a price.
\<close>

theorem baw_american_call_european:
  assumes "c \<ge> r"
  shows "baw_american_call S K T r sigma c = BSMAnalytical_new_price S K T r sigma c ''call''
       \<and> (0 < S \<and> 0 < K \<and> 0 < T \<and> 0 < sigma \<longrightarrow>
            (\<exists>p. baw_american_call S K T r sigma c = Inr p))"
  using assms
  by (simp add: baw_american_call_def BSMAnalytical_new_price_def [symmetric] new_price_call)

theorem baw_american_call_european_witness:
  "baw_american_call 100 100 1 (2 / 100) (2 / 10) (5 / 100)
     = BSMAnalytical_new_price 100 100 1 (2 / 100) (2 / 10) (5 / 100) ''call''
   \<and> (\<exists>p. baw_american_call 100 100 1 (2 / 100) (2 / 10) (5 / 100) = Inr p)"
proof -
  have le: "(2 / 100 :: real) \<le> 5 / 100" by simp
  have pos: "(0::real) < 100 \<and> (0::real) < 100 \<and> (0::real) < 1 \<and> (0::real) < 2 / 10" by simp
  from baw_american_call_european [OF le, of 100 100 1 "2 / 10"] pos show ?thesis by blast
qed

text \<open>
  \<^bold>\<open>C5.\<close> Constructing a \<open>BSMAnalytical\<close> raises \<open>ValueError\<close> whenever \<open>T \<le> 0\<close>, or
  \<open>sigma \<le> 0\<close>, or the lowercased option type is neither \<open>'call'\<close> nor \<open>'put'\<close>, so no price
  is returned; when all three conditions are met, construction succeeds and stores the
  arguments.
\<close>

theorem BSMAnalytical_init_validation:
  "(T \<le> 0 \<or> sigma \<le> 0 \<or> lower ot \<notin> {''call'', ''put''} \<longrightarrow>
      BSMAnalytical_init S K T r sigma c ot = Inl ValueError
    \<and> BSMAnalytical_new_price S K T r sigma c ot = Inl ValueError)
 \<and> (0 < T \<and> 0 < sigma \<and> lower ot \<in> {''call'', ''put''} \<longrightarrow>
      BSMAnalytical_init S K T r sigma c ot =
        Inr \<lparr>bsm_S = S, bsm_K = K, bsm_T = T, bsm_r = r, bsm_sigma = sigma, bsm_c = c,
             bsm_option_type = lower ot\<rparr>)"
  by (auto simp: BSMAnalytical_init_eq BSMAnalytical_new_price_def)

theorem BSMAnalytical_init_validation_witness:
  "BSMAnalytical_new_price 100 100 0 (5 / 100) (2 / 10) 0 ''call'' = Inl ValueError
 \<and> BSMAnalytical_new_price 100 100 1 (5 / 100) (- 1 / 10) 0 ''call'' = Inl ValueError
 \<and> BSMAnalytical_init 100 100 1 (5 / 100) (2 / 10) 0 ''xyz'' = Inl ValueError
 \<and> BSMAnalytical_init 100 100 1 (5 / 100) (2 / 10) 0 ''Put'' =
      Inr \<lparr>bsm_S = 100, bsm_K = 100, bsm_T = 1, bsm_r = 5 / 100, bsm_sigma = 2 / 10,
           bsm_c = 0, bsm_option_type = ''put''\<rparr>"
  using BSMAnalytical_init_validation [of 0 "2 / 10" "''call''" 100 100 "5 / 100" 0]
        BSMAnalytical_init_validation [of 1 "- 1 / 10" "''call''" 100 100 "5 / 100" 0]
        BSMAnalytical_init_validation [of 1 "2 / 10" "''xyz''" 100 100 "5 / 100" 0]
        BSMAnalytical_init_validation [of 1 "2 / 10" "''Put''" 100 100 "5 / 100" 0]
  by (simp add: lower_examples)

subsection \<open>\<open>implied_volatility\<close>\<close>



lemma price_record_valid:
  assumes "0 < S" "0 < K" "0 < T" "0 < sigma"
  shows "\<exists>p. BSMAnalytical_price \<lparr>bsm_S = S, bsm_K = K, bsm_T = T, bsm_r = r,
            bsm_sigma = sigma, bsm_c = c, bsm_option_type = ot\<rparr> = Inr p"
  using assms by (simp add: BSMAnalytical_price_def d1_d2_valid)

lemma vega_record_valid:
  assumes "0 < S" "0 < K" "0 < T" "0 < sigma"
  shows "\<exists>v. BSMAnalytical_vega \<lparr>bsm_S = S, bsm_K = K, bsm_T = T, bsm_r = r,
            bsm_sigma = sigma, bsm_c = c, bsm_option_type = ot\<rparr> = Inr v"
  using assms by (simp add: BSMAnalytical_vega_def d1_d2_valid py_sqrt_def)

lemma newton_loop_range:
  "newton_loop mp S K T r c ot tol k sigma = Inr (Returned v) \<Longrightarrow>
     1 / 10 ^ 8 \<le> sigma \<Longrightarrow> sigma \<le> 5 \<Longrightarrow> 1 / 10 ^ 8 \<le> v \<and> v \<le> 5"
proof (induction k arbitrary: sigma)
  case 0
  then show ?case by simp
next
  case (Suc k)
  from Suc.prems(1) obtain bsm p vg where
    run: "BSMAnalytical_init S K T r sigma c ot = Inr bsm"
         "BSMAnalytical_price bsm = Inr p" "BSMAnalytical_vega bsm = Inr vg"
    by (auto simp: bind_e_def split: sum.splits)
  show ?case
  proof (cases "\<bar>p - mp\<bar> < tol")
    case True
    with Suc.prems run show ?thesis by (simp add: Let_def)
  next
    case False
    with Suc.prems(1) run have nv: "\<not> vg < 1 / 10 ^ 8"
      by (auto simp: Let_def split: if_splits)
    define sigma_new where "sigma_new = sigma - (p - mp) / vg"
    from nv have "vg \<noteq> 0" by auto
    with Suc.prems(1) run False nv
    have inband: "\<not> (sigma_new < 1 / 10 ^ 8 \<or> sigma_new > 5)"
      and rec: "newton_loop mp S K T r c ot tol k sigma_new = Inr (Returned v)"
      by (auto simp: Let_def py_div_def sigma_new_def split: if_splits)
    from inband have "1 / 10 ^ 8 \<le> sigma_new" "sigma_new \<le> 5" by auto
    with Suc.IH [OF rec] show ?thesis by blast
  qed
qed

lemma bisection_loop_range:
  "bisection_loop mp S K T r c ot tol k low high = Inr v \<Longrightarrow> low \<le> high \<Longrightarrow>
     low \<le> v \<and> v \<le> high"
proof (induction k arbitrary: low high)
  case 0
  then show ?case by auto
next
  case (Suc k)
  define mid where "mid = (low + high) / 2"
  from Suc.prems(2) have mid: "low \<le> mid" "mid \<le> high" by (auto simp: mid_def)
  from Suc.prems(1) obtain bsm p where
    run: "BSMAnalytical_init S K T r mid c ot = Inr bsm" "BSMAnalytical_price bsm = Inr p"
    by (auto simp: bind_e_def Let_def mid_def split: sum.splits)
  consider (hit) "\<bar>p - mp\<bar> < tol" | (hi) "\<not> \<bar>p - mp\<bar> < tol" "p > mp"
    | (lo) "\<not> \<bar>p - mp\<bar> < tol" "\<not> p > mp" by blast
  then show ?case
  proof cases
    case hit
    with Suc.prems(1) run have "v = mid" by (simp add: Let_def mid_def [symmetric])
    with mid show ?thesis by simp
  next
    case hi
    with Suc.prems(1) run have "bisection_loop mp S K T r c ot tol k low mid = Inr v"
      by (simp add: Let_def mid_def [symmetric])
    from Suc.IH [OF this mid(1)] mid show ?thesis by simp
  next
    case lo
    with Suc.prems(1) run have "bisection_loop mp S K T r c ot tol k mid high = Inr v"
      by (simp add: Let_def mid_def [symmetric])
    from Suc.IH [OF this mid(2)] mid show ?thesis by simp
  qed
qed

lemma newton_step:
  assumes "BSMAnalytical_init S K T r sigma c ot = Inr bsm"
    and "BSMAnalytical_price bsm = Inr p" and "BSMAnalytical_vega bsm = Inr vg"
  shows "newton_loop mp S K T r c ot tol (Suc k) sigma =
           (if \<bar>p - mp\<bar> < tol then Inr (Returned sigma)
            else if vg < 1 / 10 ^ 8 then Inr Fallthrough
            else if sigma - (p - mp) / vg < 1 / 10 ^ 8 \<or> sigma - (p - mp) / vg > 5
              then Inr Fallthrough
            else newton_loop mp S K T r c ot tol k (sigma - (p - mp) / vg))"
proof (cases "vg < 1 / 10 ^ 8")
  case True
  with assms show ?thesis by (simp add: Let_def)
next
  case False
  then have "vg \<noteq> 0" by auto
  with assms False show ?thesis by (simp add: Let_def py_div_def)
qed

lemma newton_loop_total:
  assumes "0 < S" "0 < K" "0 < T" "lower ot \<in> {''call'', ''put''}"
  shows "0 < sigma \<Longrightarrow> \<exists>e. newton_loop mp S K T r c ot tol k sigma = Inr e"
proof (induction k arbitrary: sigma)
  case 0
  then show ?case by simp
next
  case (Suc k)
  let ?bsm = "\<lparr>bsm_S = S, bsm_K = K, bsm_T = T, bsm_r = r, bsm_sigma = sigma, bsm_c = c,
               bsm_option_type = lower ot\<rparr>"
  from assms Suc.prems have init: "BSMAnalytical_init S K T r sigma c ot = Inr ?bsm"
    by (auto simp: BSMAnalytical_init_eq)
  from price_record_valid [OF assms(1-3) Suc.prems] obtain p where
    p: "BSMAnalytical_price ?bsm = Inr p" by blast
  from vega_record_valid [OF assms(1-3) Suc.prems] obtain vg where
    vg: "BSMAnalytical_vega ?bsm = Inr vg" by blast
  note step = newton_step [OF init p vg, of mp tol k]
  show ?case
  proof (cases "sigma - (p - mp) / vg < 1 / 10 ^ 8")
    case True
    then show ?thesis unfolding step by auto
  next
    case False
    then have "1 / 10 ^ 8 \<le> sigma - (p - mp) / vg" by (simp only: not_less)
    moreover have "(0::real) < 1 / 10 ^ 8" by simp
    ultimately have "0 < sigma - (p - mp) / vg" by (rule less_le_trans [rotated])
    from Suc.IH [OF this] show ?thesis unfolding step by auto
  qed
qed

lemma bisection_loop_total:
  assumes "0 < S" "0 < K" "0 < T" "lower ot \<in> {''call'', ''put''}"
  shows "0 < low \<Longrightarrow> low \<le> high \<Longrightarrow> \<exists>v. bisection_loop mp S K T r c ot tol k low high = Inr v"
proof (induction k arbitrary: low high)
  case 0
  show ?case by (rule exI [of _ "(low + high) / 2"]) simp
next
  case (Suc k)
  define mid where "mid = (low + high) / 2"
  from Suc.prems have mid: "0 < mid" "low \<le> mid" "mid \<le> high" by (auto simp: mid_def)
  let ?bsm = "\<lparr>bsm_S = S, bsm_K = K, bsm_T = T, bsm_r = r, bsm_sigma = mid, bsm_c = c,
               bsm_option_type = lower ot\<rparr>"
  from assms mid have init: "BSMAnalytical_init S K T r mid c ot = Inr ?bsm"
    by (auto simp: BSMAnalytical_init_eq)
  from price_record_valid [OF assms(1-3) mid(1)] obtain p where
    p: "BSMAnalytical_price ?bsm = Inr p" by blast
  from Suc.IH [OF Suc.prems(1) mid(2)] Suc.IH [OF mid(1) mid(3)]
  show ?case
    by (auto simp: Let_def mid_def [symmetric] init p)
qed

lemma if_Inr_ex: "(\<exists>w. y = Inr w) \<Longrightarrow> \<exists>w. (if P then Inr a else y) = Inr w"
  by (cases P) auto

text \<open>
  \<^bold>\<open>C10.\<close> Whenever \<open>implied_volatility\<close> returns a value, the value lies in
  \<open>[1e-8, 5.0]\<close>; and it does return a value for \<open>market_price \<ge> 0\<close>, \<open>T > 0\<close>, \<open>S > 0\<close>,
  \<open>K > 0\<close> and an option type that \<open>BSMAnalytical\<close> accepts.
\<close>

theorem implied_volatility_range:
  "(implied_volatility market_price S K T r c option_type tol max_iter = Inr v \<longrightarrow>
      1 / 10 ^ 8 \<le> v \<and> v \<le> 5)
 \<and> (0 \<le> market_price \<and> 0 < T \<and> 0 < S \<and> 0 < K \<and> lower option_type \<in> {''call'', ''put''} \<longrightarrow>
      (\<exists>w. implied_volatility market_price S K T r c option_type tol max_iter = Inr w))"
proof (rule conjI; rule impI)
  assume ret: "implied_volatility market_price S K T r c option_type tol max_iter = Inr v"
  show "1 / 10 ^ 8 \<le> v \<and> v \<le> 5"
  proof (cases "newton_loop market_price S K T r c option_type tol (nat max_iter) (2 / 10)")
    case (Inl e)
    with ret show ?thesis
      by (auto simp: implied_volatility_def Let_def split: if_splits)
  next
    case (Inr e)
    show ?thesis
    proof (cases e)
      case (Returned s)
      with Inr have "newton_loop market_price S K T r c option_type tol (nat max_iter) (2 / 10)
                       = Inr (Returned s)" by simp
      from newton_loop_range [OF this] have "1 / 10 ^ 8 \<le> s \<and> s \<le> 5" by simp
      with ret Inr Returned show ?thesis
        by (auto simp: implied_volatility_def Let_def split: if_splits)
    next
      case Fallthrough
      have "bisection_loop market_price S K T r c option_type tol (nat max_iter) (1 / 10 ^ 8) 5
              = Inr v \<Longrightarrow> 1 / 10 ^ 8 \<le> v \<and> v \<le> 5"
        using bisection_loop_range [of market_price S K T r c option_type tol "nat max_iter"
                "1 / 10 ^ 8" 5 v] by simp
      with ret Inr Fallthrough show ?thesis
        by (auto simp: implied_volatility_def Let_def split: if_splits)
    qed
  qed
next
  assume a: "0 \<le> market_price \<and> 0 < T \<and> 0 < S \<and> 0 < K
             \<and> lower option_type \<in> {''call'', ''put''}"
  then have v: "0 < S" "0 < K" "0 < T" "lower option_type \<in> {''call'', ''put''}" by auto
  from newton_loop_total [OF v, of "2 / 10" market_price r c tol "nat max_iter"]
  obtain e where e: "newton_loop market_price S K T r c option_type tol (nat max_iter) (2 / 10)
                       = Inr e" by auto
  from bisection_loop_total [OF v, of "1 / 10 ^ 8" 5 market_price r c tol "nat max_iter"]
  obtain b where b: "bisection_loop market_price S K T r c option_type tol (nat max_iter)
                       (1 / 10 ^ 8) 5 = Inr b" by auto
  have "\<exists>w. bind_e (newton_loop market_price S K T r c option_type tol (nat max_iter) (2 / 10))
               (\<lambda>e. case e of
                  Returned sigma \<Rightarrow> Inr sigma
                | Fallthrough \<Rightarrow>
                    bisection_loop market_price S K T r c option_type tol (nat max_iter)
                      (1 / 10 ^ 8) 5) = Inr w"
    unfolding e b by (cases e) (simp_all add: b)
  with a show "\<exists>w. implied_volatility market_price S K T r c option_type tol max_iter = Inr w"
    unfolding implied_volatility_def Let_def by (simp only: if_Inr_ex not_less [symmetric] if_False)
qed

theorem implied_volatility_range_witness:
  "\<exists>w. implied_volatility 10 100 100 1 (5 / 100) 0 ''call'' (1 / 10 ^ 8) 100 = Inr w
      \<and> 1 / 10 ^ 8 \<le> w \<and> w \<le> 5"
proof -
  have valid: "(0::real) \<le> 10 \<and> (0::real) < 1 \<and> (0::real) < 100 \<and> (0::real) < 100
               \<and> lower ''call'' \<in> {''call'', ''put''}"
    by simp
  from implied_volatility_range [of 10 100 100 1 "5 / 100" 0 "''call''" "1 / 10 ^ 8" 100] valid
  obtain w where w: "implied_volatility 10 100 100 1 (5 / 100) 0 ''call'' (1 / 10 ^ 8) 100 = Inr w"
    by blast
  with implied_volatility_range [of 10 100 100 1 "5 / 100" 0 "''call''" "1 / 10 ^ 8" 100 w]
  show ?thesis by blast
qed

subsection \<open>The Barone-Adesi-Whaley pricers at degenerate inputs\<close>

lemma baw_put_sigma0: "baw_american_put S K T r 0 c = Inl ZeroDivisionError"
  by (simp add: baw_american_put_def py_sqrt_def py_div_def)

lemma baw_call_sigma0_lt: "c < r \<Longrightarrow> baw_american_call S K T r 0 c = Inl ZeroDivisionError"
  by (simp add: baw_american_call_def py_sqrt_def py_div_def)

lemma baw_call_sigma_le0_ge:
  "r \<le> c \<Longrightarrow> sigma \<le> 0 \<Longrightarrow> baw_american_call S K T r sigma c = Inl ValueError"
  by (simp add: baw_american_call_def BSMAnalytical_init_eq)

text \<open>One input with \<open>c = 0 < r\<close>: the discriminant is \<open>0.0049\<close>, its root \<open>0.07\<close>, and
  \<open>q2 = (-0.03 + 0.07) / 0.04 = 1\<close> (the doubles give \<open>1.0\<close> here as well).\<close>

lemma sqrt_49_10000: "sqrt (49 / 10000) = 7 / 100"
  by (rule real_sqrt_unique) (simp_all add: power2_eq_square)

lemma baw_call_root_one_example:
  "baw_american_call 100 100 1 (5 / 100) (2 / 10) 0 = Inl ZeroDivisionError"
  by (simp add: baw_american_call_def py_sqrt_def py_div_def power2_eq_square sqrt_49_10000)

text \<open>
  \<^bold>\<open>C6\<close>, as the specification states it: at \<open>sigma \<rightarrow> 0\<close> and where the root of the
  characteristic quadratic is 1, \<open>baw_american_call\<close> and \<open>baw_american_put\<close> fail with the
  validation error. They do not: \<open>baw_american_put\<close> at \<open>sigma = 0\<close> and
  \<open>baw_american_call\<close> at \<open>r = 0.05\<close>, \<open>sigma = 0.2\<close>, \<open>c = 0\<close> (where \<open>q2 = 1\<close>) end in
  Python's \<open>ZeroDivisionError\<close>, not in \<open>ValueError\<close>.
\<close>

theorem baw_unguarded_counterexample:
  "baw_american_put 100 100 1 (5 / 100) 0 0 = Inl ZeroDivisionError
 \<and> baw_american_call 100 100 1 (5 / 100) (2 / 10) 0 = Inl ZeroDivisionError"
proof
  show "baw_american_put 100 100 1 (5 / 100) 0 0 = Inl ZeroDivisionError"
    by (rule baw_put_sigma0)
  show "baw_american_call 100 100 1 (5 / 100) (2 / 10) 0 = Inl ZeroDivisionError"
    by (rule baw_call_root_one_example)
qed

text \<open>
  \<^bold>\<open>C6\<close>, amended: the BAW pricers have no guard of their own. With \<open>sigma = 0\<close>,
  \<open>baw_american_put\<close> and, for \<open>c < r\<close>, \<open>baw_american_call\<close> raise \<open>ZeroDivisionError\<close> from
  the division by \<open>sigma**2\<close>, not the validation error; \<open>baw_american_call\<close> with \<open>c \<ge> r\<close>
  raises \<open>ValueError\<close> for \<open>sigma \<le> 0\<close>, through \<open>BSMAnalytical\<close>.
\<close>

theorem baw_degenerate_inputs:
  "(sigma = 0 \<longrightarrow> baw_american_put S K T r sigma c = Inl ZeroDivisionError)
 \<and> (sigma = 0 \<and> c < r \<longrightarrow> baw_american_call S K T r sigma c = Inl ZeroDivisionError)
 \<and> (sigma \<le> 0 \<and> r \<le> c \<longrightarrow> baw_american_call S K T r sigma c = Inl ValueError)"
  by (auto simp: baw_put_sigma0 baw_call_sigma0_lt baw_call_sigma_le0_ge)

theorem baw_degenerate_inputs_witness:
  "baw_american_put 100 100 1 (5 / 100) 0 (1 / 100) = Inl ZeroDivisionError
 \<and> baw_american_call 100 100 1 (5 / 100) 0 (1 / 100) = Inl ZeroDivisionError
 \<and> baw_american_call 100 100 1 (2 / 100) 0 (5 / 100) = Inl ValueError
 \<and> baw_american_call 100 100 1 (2 / 100) (- 1 / 10) (5 / 100) = Inl ValueError"
  using baw_degenerate_inputs [of 0 100 100 1 "5 / 100" "1 / 100"]
        baw_degenerate_inputs [of 0 100 100 1 "2 / 100" "5 / 100"]
        baw_degenerate_inputs [of "- 1 / 10" 100 100 1 "2 / 100" "5 / 100"]
  by simp

subsection \<open>Rounding to double precision\<close>

lemma round_half_even_bounds:
  "of_int \<lfloor>y\<rfloor> \<le> (of_int (round_half_even y) :: real)"
  "(of_int (round_half_even y) :: real) \<le> of_int \<lfloor>y\<rfloor> + 1"
  by (simp_all add: round_half_even_def Let_def)

lemma round_half_even_error: "\<bar>of_int (round_half_even y) - y\<bar> \<le> 1 / 2"
proof -
  have "of_int \<lfloor>y\<rfloor> \<le> y" "y < of_int \<lfloor>y\<rfloor> + 1" by linarith+
  then show ?thesis
    by (auto simp: round_half_even_def Let_def abs_le_iff not_less)
qed

lemma round_half_even_eqI:
  assumes "\<bar>y - of_int m\<bar> < 1 / 2"
  shows "round_half_even y = m"
proof (cases "of_int m \<le> y")
  case True
  with assms have "\<lfloor>y\<rfloor> = m" by (intro floor_unique) (auto simp: abs_less_iff)
  with assms True show ?thesis by (simp add: round_half_even_def Let_def abs_less_iff)
next
  case False
  with assms have f: "\<lfloor>y\<rfloor> = m - 1" by (intro floor_unique) (auto simp: abs_less_iff)
  from assms False have "\<not> y - of_int (m - 1) < 1 / 2" "y - of_int (m - 1) > 1 / 2"
    by (auto simp: abs_less_iff)
  with f show ?thesis by (simp add: round_half_even_def Let_def)
qed

lemma floor_log2_eqI:
  fixes x :: real
  assumes "2 powr of_int e \<le> x" "x < 2 powr (of_int e + 1)"
  shows "\<lfloor>log 2 x\<rfloor> = e"
proof -
  have "(0::real) < 2 powr real_of_int e" by simp
  from this assms(1) have "0 < x" by (rule less_le_trans)
  with assms show ?thesis by (simp add: floor_log_eq_powr_iff add.commute)
qed

lemma round_half_even_tie:
  assumes "\<bar>y - of_int m\<bar> = 1 / 2" "even m"
  shows "round_half_even y = m"
proof (cases "of_int m \<le> y")
  case True
  with assms(1) have y: "y = of_int m + 1 / 2" by (simp add: abs_if split: if_splits)
  then have "\<lfloor>y\<rfloor> = m" by (intro floor_unique) simp_all
  with y assms(2) show ?thesis by (simp add: round_half_even_def Let_def)
next
  case False
  with assms(1) have y: "y = of_int (m - 1) + 1 / 2" by (simp add: abs_if split: if_splits)
  then have f: "\<lfloor>y\<rfloor> = m - 1" by (intro floor_unique) simp_all
  from y have "y - of_int (m - 1) = 1 / 2" by simp
  with f assms(2) show ?thesis by (simp add: round_half_even_def Let_def)
qed

lemma fl64_roundI:
  assumes lo: "2 ^ 52 \<le> \<bar>x\<bar> * 2 ^ k"
    and up: "\<bar>x\<bar> * 2 ^ k < 2 ^ 53"
    and r: "round_half_even (x * 2 ^ k) = m"
  shows "fl64 x = of_int m / 2 ^ k"
proof -
  have x0: "x \<noteq> 0" using lo by auto
  have pk: "(2::real) powr (of_int (52 - int k)) = 2 ^ 52 / 2 ^ k"
    by (simp add: powr_diff powr_realpow)
  have pk1: "(2::real) powr (of_int (52 - int k) + 1) = 2 ^ 53 / 2 ^ k"
    by (simp add: powr_diff powr_add powr_realpow)
  have e: "\<lfloor>log 2 \<bar>x\<bar>\<rfloor> = 52 - int k"
  proof (rule floor_log2_eqI)
    show "2 powr of_int (52 - int k) \<le> \<bar>x\<bar>"
      unfolding pk using lo by (simp add: field_simps)
    show "\<bar>x\<bar> < 2 powr (of_int (52 - int k) + 1)"
      unfolding pk1 using up by (simp add: field_simps)
  qed
  show ?thesis
    using x0 by (simp add: fl64_def e Let_def powr_realpow powr_minus r divide_inverse)
qed

lemma fl64_eqI:
  assumes lo: "2 ^ 52 \<le> \<bar>x\<bar> * 2 ^ k"
    and near: "\<bar>x * 2 ^ k - of_int m\<bar> < 1 / 2"
    and hi: "\<bar>m\<bar> < 2 ^ 53"
  shows "fl64 x = of_int m / 2 ^ k"
proof -
  have x0: "x \<noteq> 0" using lo by auto
  have "\<bar>x\<bar> * 2 ^ k = \<bar>x * 2 ^ k\<bar>" by (simp add: abs_mult)
  also have "\<dots> < \<bar>real_of_int m\<bar> + 1 / 2" using near by linarith
  also have "\<dots> \<le> 2 ^ 53 - 1 + 1 / 2"
  proof -
    from hi have "\<bar>m\<bar> \<le> 2 ^ 53 - 1" by simp
    then have "real_of_int \<bar>m\<bar> \<le> real_of_int (2 ^ 53 - 1)" by (rule of_int_le_iff [THEN iffD2])
    then show ?thesis by simp
  qed
  finally have up: "\<bar>x\<bar> * 2 ^ k < 2 ^ 53" by simp
  from near have "round_half_even (x * 2 ^ k) = m" by (rule round_half_even_eqI)
  with lo up show ?thesis by (rule fl64_roundI)
qed

lemma fl64_zero [simp]: "fl64 0 = 0"
  by (simp add: fl64_def)

lemma fl64_scaled:
  fixes x :: real
  assumes "x \<noteq> 0"
  defines "e \<equiv> \<lfloor>log 2 \<bar>x\<bar>\<rfloor>"
  shows "2 powr of_int e \<le> \<bar>x\<bar>" "\<bar>x\<bar> < 2 powr (of_int e + 1)"
proof -
  from assms(1) have "0 < \<bar>x\<bar>" by simp
  then have "\<lfloor>log 2 \<bar>x\<bar>\<rfloor> = e \<longleftrightarrow> 2 powr of_int e \<le> \<bar>x\<bar> \<and> \<bar>x\<bar> < 2 powr (of_int e + 1)"
    by (simp add: floor_log_eq_powr_iff add.commute)
  then show "2 powr of_int e \<le> \<bar>x\<bar>" "\<bar>x\<bar> < 2 powr (of_int e + 1)"
    by (simp_all add: e_def)
qed

lemma fl64_pos:
  assumes "0 < x"
  shows "0 < fl64 x"
proof -
  define e where "e = \<lfloor>log 2 \<bar>x\<bar>\<rfloor>"
  define y where "y = x * 2 powr (52 - of_int e)"
  from assms have x0: "x \<noteq> 0" by simp
  from fl64_scaled(1) [OF x0] assms have "2 powr of_int e \<le> x" by (simp add: e_def)
  then have "2 powr of_int e * 2 powr (52 - of_int e) \<le> y"
    unfolding y_def by (intro mult_right_mono) simp_all
  then have "2 ^ 52 \<le> y" by (simp add: powr_add [symmetric])
  then have "(2 ^ 52 :: int) \<le> \<lfloor>y\<rfloor>" by (simp add: le_floor_iff)
  then have "(2 ^ 52 :: real) \<le> of_int \<lfloor>y\<rfloor>"
    by (metis of_int_le_iff of_int_numeral of_int_power)
  moreover have "(0::real) < 2 ^ 52" by simp
  ultimately have "(0::real) < of_int (round_half_even y)"
    using round_half_even_bounds(1) [of y] by linarith
  then have "(0::real) < of_int (round_half_even y) * 2 powr (of_int e - 52)"
    by (intro mult_pos_pos) simp_all
  with x0 show ?thesis by (simp add: fl64_def Let_def e_def y_def)
qed

lemma fl64_neg:
  assumes "x < 0"
  shows "fl64 x < 0"
proof -
  define e where "e = \<lfloor>log 2 \<bar>x\<bar>\<rfloor>"
  define y where "y = x * 2 powr (52 - of_int e)"
  from assms have x0: "x \<noteq> 0" by simp
  from fl64_scaled(1) [OF x0] assms have "2 powr of_int e \<le> - x" by (simp add: e_def)
  then have "2 powr of_int e * 2 powr (52 - of_int e) \<le> - x * 2 powr (52 - of_int e)"
    by (intro mult_right_mono) simp_all
  then have "y \<le> - (2 ^ 52)" by (simp add: powr_add [symmetric] y_def)
  moreover have "of_int \<lfloor>y\<rfloor> \<le> y" by simp
  moreover have "(1::real) < 2 ^ 52" by simp
  ultimately have "of_int \<lfloor>y\<rfloor> + 1 < (0::real)" by linarith
  with round_half_even_bounds(2) [of y] have "of_int (round_half_even y) < (0::real)"
    by linarith
  then have "of_int (round_half_even y) * 2 powr (of_int e - 52) < (0::real)"
    by (intro mult_neg_pos) simp_all
  with x0 show ?thesis by (simp add: fl64_def Let_def e_def y_def)
qed

lemma fl64_nonneg: "0 \<le> x \<Longrightarrow> 0 \<le> fl64 x"
  using fl64_pos [of x] by (cases "x = 0") (auto simp: less_le)

lemma fl64_eq_0_iff [simp]: "fl64 x = 0 \<longleftrightarrow> x = 0"
  using fl64_pos [of x] fl64_neg [of x] by (cases x "0::real" rule: linorder_cases) auto

lemma fl64_error: "\<bar>fl64 x - x\<bar> \<le> \<bar>x\<bar> / 2 ^ 53"
proof (cases "x = 0")
  case True
  then show ?thesis by simp
next
  case False
  define e where "e = \<lfloor>log 2 \<bar>x\<bar>\<rfloor>"
  define u :: real where "u = 2 powr (of_int e - 52)"
  define y where "y = x * 2 powr (52 - of_int e)"
  have u: "0 < u" by (simp add: u_def)
  have yu: "y * u = x" by (simp add: y_def u_def powr_add [symmetric])
  have "fl64 x = of_int (round_half_even y) * u"
    using False by (simp add: fl64_def Let_def e_def y_def u_def)
  then have "fl64 x - x = (of_int (round_half_even y) - y) * u"
    using yu by (simp add: algebra_simps)
  then have "\<bar>fl64 x - x\<bar> = \<bar>of_int (round_half_even y) - y\<bar> * u"
    using u by (simp add: abs_mult)
  also have "\<dots> \<le> 1 / 2 * u"
    using u round_half_even_error [of y] by (intro mult_right_mono) simp_all
  also have "\<dots> = 2 powr of_int e / 2 ^ 53"
    by (simp add: u_def powr_diff)
  also have "\<dots> \<le> \<bar>x\<bar> / 2 ^ 53"
    using fl64_scaled(1) [OF False] by (simp add: e_def divide_right_mono)
  finally show ?thesis .
qed

lemma fl64_numI:
  assumes "y = of_int m / 2 ^ k" "2 ^ 52 \<le> \<bar>x\<bar> * 2 ^ k"
    "\<bar>x * 2 ^ k - of_int m\<bar> < 1 / 2" "\<bar>m\<bar> < 2 ^ 53"
  shows "fl64 x = y"
  unfolding assms(1) using assms(2-4) by (rule fl64_eqI)

lemma fl64_tie_numI:
  assumes "y = of_int m / 2 ^ k" "2 ^ 52 \<le> \<bar>x\<bar> * 2 ^ k" "\<bar>x\<bar> * 2 ^ k < 2 ^ 53"
    "\<bar>x * 2 ^ k - of_int m\<bar> = 1 / 2" "even m"
  shows "fl64 x = y"
  unfolding assms(1) using assms(2,3) round_half_even_tie [OF assms(4,5)] by (rule fl64_roundI)

text \<open>\<open>math.sqrt(3)\<close> is the double \<open>7800463371553962 / 2\<^sup>5\<^sup>2\<close>.\<close>

lemma fl64_sqrt3: "fl64 (sqrt 3) = (7800463371553962 / 2 ^ 52)"
proof (rule fl64_numI [where m = "7800463371553962" and k = 52])
  have lo: "(7800463371553962 - 1 / 2) / 2 ^ 52 < sqrt 3"
    by (rule real_less_rsqrt) (simp add: power2_eq_square)
  have hi: "sqrt 3 < (7800463371553962 + 1 / 2) / 2 ^ 52"
    by (rule real_less_lsqrt) (simp_all add: power2_eq_square)
  have one: "(1::real) \<le> (7800463371553962 - 1 / 2) / 2 ^ 52" by simp
  from one lo have "1 \<le> sqrt 3" by linarith
  then show "2 ^ 52 \<le> \<bar>sqrt 3\<bar> * 2 ^ 52" by simp
  define X where "X = sqrt 3 * 2 ^ 52"
  from lo have a: "7800463371553962 - 1 / 2 < X" by (simp add: X_def pos_divide_less_eq)
  from hi have b: "X < 7800463371553962 + 1 / 2" by (simp add: X_def pos_less_divide_eq)
  from a b have "\<bar>X - of_int 7800463371553962\<bar> < 1 / 2" unfolding abs_less_iff by auto
  then show "\<bar>sqrt 3 * 2 ^ 52 - of_int 7800463371553962\<bar> < 1 / 2" by (simp only: X_def)
qed simp_all


subsection \<open>Construction of the lattice pricers\<close>

lemma TrinomialTree_init_fields:
  assumes "TrinomialTree_init T S0 r sigma c K n ot = Inr t"
  shows "tt_p_u t = max (fl64 (fl64 (1 / 6) +
            fl64 (fl64 (fl64 (fl64 (r - c) - fl64 ((5 / 10) * fl64 (sigma\<^sup>2)))
                          * fl64 (sqrt (fl64 (T / of_int n))))
                  / fl64 (fl64 (2 * sigma) * fl64 (sqrt 3))))) 0"
    and "tt_p_d t = max (fl64 (fl64 (1 / 6) -
            fl64 (fl64 (fl64 (fl64 (r - c) - fl64 ((5 / 10) * fl64 (sigma\<^sup>2)))
                          * fl64 (sqrt (fl64 (T / of_int n))))
                  / fl64 (fl64 (2 * sigma) * fl64 (sqrt 3))))) 0"
    and "tt_p_m t = fl64 (fl64 (1 - tt_p_u t) - tt_p_d t)"
  using assms
  by (auto simp: TrinomialTree_init_def py_div64_def py_sqrt64_def Let_def bind_e_def
      split: if_splits)

lemma TrinomialTree_init_ok:
  assumes "n \<noteq> 0" "0 \<le> T / of_int n" "sigma \<noteq> 0"
  shows "\<not> isl (TrinomialTree_init T S0 r sigma c K n ot)"
  using assms
  by (simp add: TrinomialTree_init_def py_div64_def py_sqrt64_def Let_def not_less fl64_nonneg)

lemma TrinomialTree_init_n0: "TrinomialTree_init T S0 r sigma c K 0 ot = Inl ZeroDivisionError"
  by (simp add: TrinomialTree_init_def py_div64_def)

lemma TrinomialTree_init_sigma0:
  assumes "n \<noteq> 0" "0 \<le> T / of_int n"
  shows "TrinomialTree_init T S0 r 0 c K n ot = Inl ZeroDivisionError"
  using assms
  by (simp add: TrinomialTree_init_def py_div64_def py_sqrt64_def Let_def not_less fl64_nonneg)

lemma TrinomialTree_init_neg:
  assumes "n \<noteq> 0" "T / of_int n < 0"
  shows "TrinomialTree_init T S0 r sigma c K n ot = Inl ValueError"
proof -
  from assms(2) have "fl64 (T / of_int n) < 0" by (rule fl64_neg)
  then have "fl64 (3 * fl64 (T / of_int n)) < 0" by (intro fl64_neg) simp
  with assms(1) show ?thesis
    by (simp add: TrinomialTree_init_def py_div64_def py_sqrt64_def Let_def)
qed

lemma TrinomialTree_init_props:
  assumes "TrinomialTree_init T S0 r sigma c K n ot = Inr t"
  shows "0 \<le> tt_p_u t" "0 \<le> tt_p_d t"
    "tt_p_m t = fl64 (fl64 (1 - tt_p_u t) - tt_p_d t)"
    "\<bar>tt_p_u t + tt_p_m t + tt_p_d t - 1\<bar>
       \<le> (\<bar>1 - tt_p_u t\<bar> + \<bar>fl64 (1 - tt_p_u t) - tt_p_d t\<bar>) / 2 ^ 53"
proof -
  note f = TrinomialTree_init_fields [OF assms]
  show "0 \<le> tt_p_u t" "0 \<le> tt_p_d t" by (simp_all add: f(1,2))
  show pm: "tt_p_m t = fl64 (fl64 (1 - tt_p_u t) - tt_p_d t)" by (rule f(3))
  define a where "a = fl64 (1 - tt_p_u t)"
  have e1: "\<bar>a - (1 - tt_p_u t)\<bar> \<le> \<bar>1 - tt_p_u t\<bar> / 2 ^ 53"
    unfolding a_def by (rule fl64_error)
  have e2: "\<bar>tt_p_m t - (a - tt_p_d t)\<bar> \<le> \<bar>a - tt_p_d t\<bar> / 2 ^ 53"
    unfolding pm a_def [symmetric] by (rule fl64_error)
  have "tt_p_u t + tt_p_m t + tt_p_d t - 1 = (tt_p_m t - (a - tt_p_d t)) + (a - (1 - tt_p_u t))"
    by simp
  then have "\<bar>tt_p_u t + tt_p_m t + tt_p_d t - 1\<bar>
               \<le> \<bar>tt_p_m t - (a - tt_p_d t)\<bar> + \<bar>a - (1 - tt_p_u t)\<bar>"
    by (simp only: abs_triangle_ineq)
  also have "\<dots> \<le> \<bar>a - tt_p_d t\<bar> / 2 ^ 53 + \<bar>1 - tt_p_u t\<bar> / 2 ^ 53"
    using e1 e2 by (rule add_mono [rotated])
  finally show "\<bar>tt_p_u t + tt_p_m t + tt_p_d t - 1\<bar>
       \<le> (\<bar>1 - tt_p_u t\<bar> + \<bar>fl64 (1 - tt_p_u t) - tt_p_d t\<bar>) / 2 ^ 53"
    by (simp add: a_def add_divide_distrib)
qed

lemma BinomialTree_init_n0: "BinomialTree_init T S0 r sigma c K 0 ot = Inl ZeroDivisionError"
  by (simp add: BinomialTree_init_def py_div_def)

lemma BinomialTree_init_neg:
  assumes "n \<noteq> 0" "T / of_int n < 0"
  shows "BinomialTree_init T S0 r sigma c K n ot = Inl ValueError"
  using assms by (simp add: BinomialTree_init_def py_div_def py_sqrt_def Let_def)

lemma BinomialTree_init_sigma0:
  assumes "n \<noteq> 0" "0 \<le> T / of_int n"
  shows "BinomialTree_init T S0 r 0 c K n ot = Inl ZeroDivisionError"
  using assms by (simp add: BinomialTree_init_def py_div_def py_sqrt_def Let_def not_less)

lemma BinomialTree_init_not_ValueError:
  assumes "1 \<le> n" "0 < T"
  shows "BinomialTree_init T S0 r sigma c K n ot \<noteq> Inl ValueError"
proof -
  from assms have "\<not> T / of_int n < 0" by (simp add: not_less)
  with assms(1) show ?thesis
    by (simp add: BinomialTree_init_def py_div_def py_sqrt_def Let_def)
qed

lemma exp_eq_inverse_iff: "exp x = 1 / exp x \<longleftrightarrow> x = 0" for x :: real
proof
  assume "exp x = 1 / exp x"
  then have "exp x * exp x = 1" by (simp add: field_simps)
  then have "exp (x + x) = exp 0" by (simp only: exp_add exp_zero)
  then have "x + x = 0" by (simp only: exp_inj_iff)
  then show "x = 0" by simp
qed simp

lemma BinomialTree_init_example:
  "\<not> isl (BinomialTree_init 1 100 (5 / 100) (- 2 / 10) 0 100 1 ''call'')"
proof -
  have "exp (- 2 / 10) \<noteq> 1 / exp (- 2 / 10 :: real)"
    by (simp add: exp_eq_inverse_iff)
  then show ?thesis
    by (simp add: BinomialTree_init_def py_div_def py_sqrt_def Let_def)
qed

text \<open>
  \<^bold>\<open>C7\<close>, as the specification states it: constructing a lattice pricer with \<open>n < 1\<close> or
  \<open>sigma \<le> 0\<close> fails with the validation error. It does not: with \<open>sigma = -0.2\<close> and
  \<open>n = 1\<close> both constructors succeed, and with \<open>n = 0\<close> the exception is
  \<open>ZeroDivisionError\<close>.
\<close>

theorem lattice_init_counterexample:
  "\<not> isl (BinomialTree_init 1 100 (5 / 100) (- 2 / 10) 0 100 1 ''call'')
 \<and> \<not> isl (TrinomialTree_init 1 100 (5 / 100) (- 2 / 10) 0 100 1 ''call'')
 \<and> BinomialTree_init 1 100 (5 / 100) (2 / 10) 0 100 0 ''call'' = Inl ZeroDivisionError"
proof (intro conjI)
  show "\<not> isl (BinomialTree_init 1 100 (5 / 100) (- 2 / 10) 0 100 1 ''call'')"
    by (rule BinomialTree_init_example)
  show "\<not> isl (TrinomialTree_init 1 100 (5 / 100) (- 2 / 10) 0 100 1 ''call'')"
    by (rule TrinomialTree_init_ok) simp_all
  show "BinomialTree_init 1 100 (5 / 100) (2 / 10) 0 100 0 ''call'' = Inl ZeroDivisionError"
    by (rule BinomialTree_init_n0)
qed

text \<open>
  \<^bold>\<open>C7\<close>, amended: the lattice constructors validate neither \<open>n\<close> nor \<open>sigma\<close>. Called
  with Python floats, both raise \<open>ZeroDivisionError\<close> for \<open>n = 0\<close> (from \<open>T / n\<close>) and for
  \<open>sigma = 0\<close> with \<open>n \<ge> 1\<close>, \<open>T \<ge> 0\<close>; for \<open>sigma < 0\<close> with \<open>n \<ge> 1\<close>, \<open>T > 0\<close> the
  \<open>TrinomialTree\<close> is constructed and \<open>BinomialTree\<close> does not raise \<open>ValueError\<close>; for
  \<open>n < 0\<close> with \<open>T > 0\<close> both raise \<open>ValueError\<close>, from \<open>math.sqrt\<close> of the negative
  \<open>T / n\<close>.
\<close>

theorem lattice_init_unvalidated:
  "(n = 0 \<longrightarrow>
      BinomialTree_init T S0 r sigma c K n ot = Inl ZeroDivisionError
    \<and> TrinomialTree_init T S0 r sigma c K n ot = Inl ZeroDivisionError)
 \<and> (1 \<le> n \<and> 0 \<le> T \<and> sigma = 0 \<longrightarrow>
      BinomialTree_init T S0 r sigma c K n ot = Inl ZeroDivisionError
    \<and> TrinomialTree_init T S0 r sigma c K n ot = Inl ZeroDivisionError)
 \<and> (1 \<le> n \<and> 0 < T \<and> sigma < 0 \<longrightarrow>
      BinomialTree_init T S0 r sigma c K n ot \<noteq> Inl ValueError
    \<and> \<not> isl (TrinomialTree_init T S0 r sigma c K n ot))
 \<and> (n < 0 \<and> 0 < T \<longrightarrow>
      BinomialTree_init T S0 r sigma c K n ot = Inl ValueError
    \<and> TrinomialTree_init T S0 r sigma c K n ot = Inl ValueError)"
proof (intro conjI impI)
  assume "n = 0"
  then show "BinomialTree_init T S0 r sigma c K n ot = Inl ZeroDivisionError"
    and "TrinomialTree_init T S0 r sigma c K n ot = Inl ZeroDivisionError"
    by (simp_all add: BinomialTree_init_n0 TrinomialTree_init_n0)
next
  assume a: "1 \<le> n \<and> 0 \<le> T \<and> sigma = 0"
  then have "n \<noteq> 0" "0 \<le> T / of_int n" by simp_all
  with a show "BinomialTree_init T S0 r sigma c K n ot = Inl ZeroDivisionError"
    and "TrinomialTree_init T S0 r sigma c K n ot = Inl ZeroDivisionError"
    by (simp_all add: BinomialTree_init_sigma0 TrinomialTree_init_sigma0)
next
  assume a: "1 \<le> n \<and> 0 < T \<and> sigma < 0"
  then have "n \<noteq> 0" "0 \<le> T / of_int n" "sigma \<noteq> 0" by simp_all
  then show "\<not> isl (TrinomialTree_init T S0 r sigma c K n ot)"
    by (rule TrinomialTree_init_ok)
  from a show "BinomialTree_init T S0 r sigma c K n ot \<noteq> Inl ValueError"
    by (intro BinomialTree_init_not_ValueError) simp_all
next
  assume a: "n < 0 \<and> 0 < T"
  then have "n \<noteq> 0" "T / of_int n < 0" by (simp_all add: divide_pos_neg)
  then show "BinomialTree_init T S0 r sigma c K n ot = Inl ValueError"
    and "TrinomialTree_init T S0 r sigma c K n ot = Inl ValueError"
    by (simp_all add: BinomialTree_init_neg TrinomialTree_init_neg)
qed

theorem lattice_init_unvalidated_witness:
  "TrinomialTree_init 1 100 (5 / 100) (2 / 10) 0 100 0 ''call'' = Inl ZeroDivisionError
 \<and> BinomialTree_init 1 100 (5 / 100) 0 0 100 10 ''call'' = Inl ZeroDivisionError
 \<and> TrinomialTree_init 1 100 (5 / 100) 0 0 100 10 ''call'' = Inl ZeroDivisionError
 \<and> BinomialTree_init 1 100 (5 / 100) (- 3 / 10) 0 100 10 ''put'' \<noteq> Inl ValueError
 \<and> \<not> isl (TrinomialTree_init 1 100 (5 / 100) (- 3 / 10) 0 100 10 ''put'')
 \<and> BinomialTree_init 1 100 (5 / 100) (2 / 10) 0 100 (- 5) ''call'' = Inl ValueError"
  using lattice_init_unvalidated [of 0 1 100 "5 / 100" "2 / 10" 0 100 "''call''"]
        lattice_init_unvalidated [of 10 1 100 "5 / 100" 0 0 100 "''call''"]
        lattice_init_unvalidated [of 10 1 100 "5 / 100" "- 3 / 10" 0 100 "''put''"]
        lattice_init_unvalidated [of "- 5" 1 100 "5 / 100" "2 / 10" 0 100 "''call''"]
  by simp

subsection \<open>The probabilities of the trinomial lattice\<close>

text \<open>The Python literals \<open>0.05\<close> and \<open>0.2\<close> denote the doubles nearest to \<open>1/20\<close> and
  \<open>1/5\<close>; these are the arguments of the two evaluations below.\<close>

lemma fl64_literal_r: "fl64 (5 / 100) = 7205759403792794 / 2 ^ 57"
  by (rule fl64_numI [where m = "7205759403792794" and k = 57]) simp_all

lemma fl64_literal_sigma: "fl64 (2 / 10) = 7205759403792794 / 2 ^ 55"
  by (rule fl64_numI [where m = "7205759403792794" and k = 55]) simp_all

text \<open>The stored doubles for \<open>T = 1\<close>, \<open>n = 1\<close>, \<open>c = 0\<close> and the doubles \<open>r = 0.05\<close>, \<open>sigma = 0.2\<close>:
  \<open>p_u = 0.2099679368558886\<close>, \<open>p_m = 0.6666666666666666\<close>, \<open>p_d = 0.12336539647744472\<close>.\<close>

lemma TrinomialTree_values_unclamped:
  "\<not> isl (TrinomialTree_init 1 100 (7205759403792794 / 2 ^ 57) (7205759403792794 / 2 ^ 55) 0 100 1 ''call'')
   \<and> tt_p_u (projr (TrinomialTree_init 1 100 (7205759403792794 / 2 ^ 57) (7205759403792794 / 2 ^ 55) 0 100 1 ''call'')) = (7564892177471454 / 2 ^ 55)
   \<and> tt_p_m (projr (TrinomialTree_init 1 100 (7205759403792794 / 2 ^ 57) (7205759403792794 / 2 ^ 55) 0 100 1 ''call'')) = (6004799503160661 / 2 ^ 53)
   \<and> tt_p_d (projr (TrinomialTree_init 1 100 (7205759403792794 / 2 ^ 57) (7205759403792794 / 2 ^ 55) 0 100 1 ''call'')) = (8889413657699737 / 2 ^ 56)"
proof -
  have ok: "\<not> isl (TrinomialTree_init 1 100 (7205759403792794 / 2 ^ 57) (7205759403792794 / 2 ^ 55) 0 100 1 ''call'')"
    by (rule TrinomialTree_init_ok) simp_all
  then obtain t where t: "TrinomialTree_init 1 100 (7205759403792794 / 2 ^ 57) (7205759403792794 / 2 ^ 55) 0 100 1 ''call'' = Inr t"
    by (cases "TrinomialTree_init 1 100 (7205759403792794 / 2 ^ 57) (7205759403792794 / 2 ^ 55) 0 100 1 ''call''") auto
  note f = TrinomialTree_init_fields [OF t]
  note q3 = fl64_sqrt3
  have s1: "fl64 ((7205759403792794 / 2 ^ 57) - 0) = (7205759403792794 / 2 ^ 57)"
    by (rule fl64_numI [where m = "7205759403792794" and k = 57]) (simp_all add: power2_eq_square)
  have s2: "fl64 ((7205759403792794 / 2 ^ 55)\<^sup>2) = (5764607523034236 / 2 ^ 57)"
    by (rule fl64_numI [where m = "5764607523034236" and k = 57]) (simp_all add: power2_eq_square)
  have s3: "fl64 (5 / 10 * (5764607523034236 / 2 ^ 57)) = (5764607523034236 / 2 ^ 58)"
    by (rule fl64_numI [where m = "5764607523034236" and k = 58]) (simp_all add: power2_eq_square)
  have s4: "fl64 ((7205759403792794 / 2 ^ 57) - (5764607523034236 / 2 ^ 58)) = (8646911284551352 / 2 ^ 58)"
    by (rule fl64_numI [where m = "8646911284551352" and k = 58]) (simp_all add: power2_eq_square)
  have s5: "fl64 (1 / real_of_int 1) = 1"
    by (rule fl64_numI [where m = "4503599627370496" and k = 52]) (simp_all add: power2_eq_square)
  have s6: "fl64 (1) = 1"
    by (rule fl64_numI [where m = "4503599627370496" and k = 52]) (simp_all add: power2_eq_square)
  have s7: "fl64 ((8646911284551352 / 2 ^ 58) * 1) = (8646911284551352 / 2 ^ 58)"
    by (rule fl64_numI [where m = "8646911284551352" and k = 58]) (simp_all add: power2_eq_square)
  have s8: "fl64 (2 * (7205759403792794 / 2 ^ 55)) = (7205759403792794 / 2 ^ 54)"
    by (rule fl64_numI [where m = "7205759403792794" and k = 54]) (simp_all add: power2_eq_square)
  have s9: "fl64 ((7205759403792794 / 2 ^ 54) * (7800463371553962 / 2 ^ 52)) = (6240370697243170 / 2 ^ 53)"
    by (rule fl64_numI [where m = "6240370697243170" and k = 53]) (simp_all add: power2_eq_square)
  have s10: "fl64 ((8646911284551352 / 2 ^ 58) / (6240370697243170 / 2 ^ 53)) = (6240370697243170 / 2 ^ 57)"
    by (rule fl64_numI [where m = "6240370697243170" and k = 57]) (simp_all add: power2_eq_square)
  have s11: "fl64 (1 / 6) = (6004799503160661 / 2 ^ 55)"
    by (rule fl64_numI [where m = "6004799503160661" and k = 55]) (simp_all add: power2_eq_square)
  have s12: "fl64 ((6004799503160661 / 2 ^ 55) + (6240370697243170 / 2 ^ 57)) = (7564892177471454 / 2 ^ 55)"
    by (rule fl64_tie_numI [where m = "7564892177471454" and k = 55]) (simp_all add: power2_eq_square)
  have s13: "fl64 ((6004799503160661 / 2 ^ 55) - (6240370697243170 / 2 ^ 57)) = (8889413657699737 / 2 ^ 56)"
    by (rule fl64_numI [where m = "8889413657699737" and k = 56]) (simp_all add: power2_eq_square)
  have s14: "fl64 (1 - (7564892177471454 / 2 ^ 55)) = (7115976210373128 / 2 ^ 53)"
    by (rule fl64_tie_numI [where m = "7115976210373128" and k = 53]) (simp_all add: power2_eq_square)
  have s15: "fl64 ((7115976210373128 / 2 ^ 53) - (8889413657699737 / 2 ^ 56)) = (6004799503160661 / 2 ^ 53)"
    by (rule fl64_numI [where m = "6004799503160661" and k = 53]) (simp_all add: power2_eq_square)
  have pu: "tt_p_u t = (7564892177471454 / 2 ^ 55)"
    unfolding f(1) s5 real_sqrt_one q3 s1 s2 s3 s4 s5 s6 s7 s8 s9 s10 s11 s12 s13 by simp
  have pd: "tt_p_d t = (8889413657699737 / 2 ^ 56)"
    unfolding f(2) s5 real_sqrt_one q3 s1 s2 s3 s4 s5 s6 s7 s8 s9 s10 s11 s12 s13 by simp
  have pm: "tt_p_m t = (6004799503160661 / 2 ^ 53)"
    unfolding f(3) pu pd s14 s15 by simp
  from pu pm pd show ?thesis unfolding t by simp
qed

text \<open>The stored doubles for \<open>T = 1\<close>, \<open>n = 1\<close>, \<open>c = 0\<close>, \<open>r = 1\<close> and the double \<open>sigma = 0.2\<close>: the
  raw \<open>p_d\<close> is negative and is clamped, \<open>p_u = 1.58117482618125\<close>,
  \<open>p_m = -0.5811748261812499\<close>, \<open>p_d = 0\<close>.\<close>

lemma TrinomialTree_values_clamped:
  "\<not> isl (TrinomialTree_init 1 100 1 (7205759403792794 / 2 ^ 55) 0 100 1 ''call'')
   \<and> tt_p_u (projr (TrinomialTree_init 1 100 1 (7205759403792794 / 2 ^ 55) 0 100 1 ''call'')) = (7120978357997486 / 2 ^ 52)
   \<and> tt_p_m (projr (TrinomialTree_init 1 100 1 (7205759403792794 / 2 ^ 55) 0 100 1 ''call'')) = (- (5234757461253980 / 2 ^ 53))
   \<and> tt_p_d (projr (TrinomialTree_init 1 100 1 (7205759403792794 / 2 ^ 55) 0 100 1 ''call'')) = 0"
proof -
  have ok: "\<not> isl (TrinomialTree_init 1 100 1 (7205759403792794 / 2 ^ 55) 0 100 1 ''call'')"
    by (rule TrinomialTree_init_ok) simp_all
  then obtain t where t: "TrinomialTree_init 1 100 1 (7205759403792794 / 2 ^ 55) 0 100 1 ''call'' = Inr t"
    by (cases "TrinomialTree_init 1 100 1 (7205759403792794 / 2 ^ 55) 0 100 1 ''call''") auto
  note f = TrinomialTree_init_fields [OF t]
  note q3 = fl64_sqrt3
  have s1: "fl64 (1 - 0) = 1"
    by (rule fl64_numI [where m = "4503599627370496" and k = 52]) (simp_all add: power2_eq_square)
  have s2: "fl64 ((7205759403792794 / 2 ^ 55)\<^sup>2) = (5764607523034236 / 2 ^ 57)"
    by (rule fl64_numI [where m = "5764607523034236" and k = 57]) (simp_all add: power2_eq_square)
  have s3: "fl64 (5 / 10 * (5764607523034236 / 2 ^ 57)) = (5764607523034236 / 2 ^ 58)"
    by (rule fl64_numI [where m = "5764607523034236" and k = 58]) (simp_all add: power2_eq_square)
  have s4: "fl64 (1 - (5764607523034236 / 2 ^ 58)) = (8827055269646172 / 2 ^ 53)"
    by (rule fl64_numI [where m = "8827055269646172" and k = 53]) (simp_all add: power2_eq_square)
  have s5: "fl64 (1 / real_of_int 1) = 1"
    by (rule fl64_numI [where m = "4503599627370496" and k = 52]) (simp_all add: power2_eq_square)
  have s6: "fl64 (1) = 1"
    by (rule fl64_numI [where m = "4503599627370496" and k = 52]) (simp_all add: power2_eq_square)
  have s7: "fl64 ((8827055269646172 / 2 ^ 53) * 1) = (8827055269646172 / 2 ^ 53)"
    by (rule fl64_numI [where m = "8827055269646172" and k = 53]) (simp_all add: power2_eq_square)
  have s8: "fl64 (2 * (7205759403792794 / 2 ^ 55)) = (7205759403792794 / 2 ^ 54)"
    by (rule fl64_numI [where m = "7205759403792794" and k = 54]) (simp_all add: power2_eq_square)
  have s9: "fl64 ((7205759403792794 / 2 ^ 54) * (7800463371553962 / 2 ^ 52)) = (6240370697243170 / 2 ^ 53)"
    by (rule fl64_numI [where m = "6240370697243170" and k = 53]) (simp_all add: power2_eq_square)
  have s10: "fl64 ((8827055269646172 / 2 ^ 53) / (6240370697243170 / 2 ^ 53)) = (6370378420102403 / 2 ^ 52)"
    by (rule fl64_numI [where m = "6370378420102403" and k = 52]) (simp_all add: power2_eq_square)
  have s11: "fl64 (1 / 6) = (6004799503160661 / 2 ^ 55)"
    by (rule fl64_numI [where m = "6004799503160661" and k = 55]) (simp_all add: power2_eq_square)
  have s12: "fl64 ((6004799503160661 / 2 ^ 55) + (6370378420102403 / 2 ^ 52)) = (7120978357997486 / 2 ^ 52)"
    by (rule fl64_numI [where m = "7120978357997486" and k = 52]) (simp_all add: power2_eq_square)
  have s13: "fl64 ((6004799503160661 / 2 ^ 55) - (6370378420102403 / 2 ^ 52)) = (- (5619778482207320 / 2 ^ 52))"
    by (rule fl64_numI [where m = "-5619778482207320" and k = 52]) (simp_all add: power2_eq_square)
  have s14: "fl64 (1 - (7120978357997486 / 2 ^ 52)) = (- (5234757461253980 / 2 ^ 53))"
    by (rule fl64_numI [where m = "-5234757461253980" and k = 53]) (simp_all add: power2_eq_square)
  have s15: "fl64 ((- (5234757461253980 / 2 ^ 53)) - 0) = (- (5234757461253980 / 2 ^ 53))"
    by (rule fl64_numI [where m = "-5234757461253980" and k = 53]) (simp_all add: power2_eq_square)
  have pu: "tt_p_u t = (7120978357997486 / 2 ^ 52)"
    unfolding f(1) s5 real_sqrt_one q3 s1 s2 s3 s4 s5 s6 s7 s8 s9 s10 s11 s12 s13 by simp
  have pd: "tt_p_d t = 0"
    unfolding f(2) s5 real_sqrt_one q3 s1 s2 s3 s4 s5 s6 s7 s8 s9 s10 s11 s12 s13 by simp
  have pm: "tt_p_m t = (- (5234757461253980 / 2 ^ 53))"
    unfolding f(3) pu pd s14 s15 by simp
  from pu pm pd show ?thesis unfolding t by simp
qed

text \<open>
  \<^bold>\<open>C8\<close>, as the specification states it: after the clamp \<open>p_u + p_m + p_d = 1\<close> exactly.
  The stored doubles do not always add up to 1: for \<open>T = 1\<close>, \<open>n = 1\<close>, \<open>r = 0.05\<close>,
  \<open>sigma = 0.2\<close>, \<open>c = 0\<close> their sum is \<open>1 - 3 / 2\<^sup>5\<^sup>6\<close>.
\<close>

theorem TrinomialTree_sum_counterexample:
  "\<not> isl (TrinomialTree_init 1 100 (7205759403792794 / 2 ^ 57) (7205759403792794 / 2 ^ 55) 0 100 1 ''call'')
 \<and> tt_p_u (projr (TrinomialTree_init 1 100 (7205759403792794 / 2 ^ 57) (7205759403792794 / 2 ^ 55) 0 100 1 ''call'')) = (7564892177471454 / 2 ^ 55)
 \<and> tt_p_m (projr (TrinomialTree_init 1 100 (7205759403792794 / 2 ^ 57) (7205759403792794 / 2 ^ 55) 0 100 1 ''call'')) = (6004799503160661 / 2 ^ 53)
 \<and> tt_p_d (projr (TrinomialTree_init 1 100 (7205759403792794 / 2 ^ 57) (7205759403792794 / 2 ^ 55) 0 100 1 ''call'')) = (8889413657699737 / 2 ^ 56)
 \<and> tt_p_u (projr (TrinomialTree_init 1 100 (7205759403792794 / 2 ^ 57) (7205759403792794 / 2 ^ 55) 0 100 1 ''call''))
     + tt_p_m (projr (TrinomialTree_init 1 100 (7205759403792794 / 2 ^ 57) (7205759403792794 / 2 ^ 55) 0 100 1 ''call''))
     + tt_p_d (projr (TrinomialTree_init 1 100 (7205759403792794 / 2 ^ 57) (7205759403792794 / 2 ^ 55) 0 100 1 ''call'')) \<noteq> 1"
  using TrinomialTree_values_unclamped by simp

text \<open>
  \<^bold>\<open>C8\<close>, amended: every constructed \<open>TrinomialTree\<close> stores \<open>p_u \<ge> 0\<close> and \<open>p_d \<ge> 0\<close>,
  and \<open>p_m\<close> is the complement \<open>1 - p_u - p_d\<close> computed in double arithmetic, so that
  \<open>p_u + p_m + p_d\<close> is 1 up to the two roundings of that expression:
  \<open>|p_u + p_m + p_d - 1| \<le> (|1 - p_u| + |fl64 (1 - p_u) - p_d|) / 2\<^sup>5\<^sup>3\<close>. The construction
  succeeds for \<open>n \<ge> 1\<close>, \<open>sigma > 0\<close>, \<open>T \<ge> 0\<close>.
\<close>

theorem TrinomialTree_probabilities:
  "(TrinomialTree_init T S0 r sigma c K n ot = Inr t \<longrightarrow>
      0 \<le> tt_p_u t \<and> 0 \<le> tt_p_d t
    \<and> tt_p_m t = fl64 (fl64 (1 - tt_p_u t) - tt_p_d t)
    \<and> \<bar>tt_p_u t + tt_p_m t + tt_p_d t - 1\<bar>
         \<le> (\<bar>1 - tt_p_u t\<bar> + \<bar>fl64 (1 - tt_p_u t) - tt_p_d t\<bar>) / 2 ^ 53)
 \<and> (1 \<le> n \<and> 0 < sigma \<and> 0 \<le> T \<longrightarrow> \<not> isl (TrinomialTree_init T S0 r sigma c K n ot))"
proof (rule conjI; rule impI)
  assume "TrinomialTree_init T S0 r sigma c K n ot = Inr t"
  from TrinomialTree_init_props [OF this]
  show "0 \<le> tt_p_u t \<and> 0 \<le> tt_p_d t
    \<and> tt_p_m t = fl64 (fl64 (1 - tt_p_u t) - tt_p_d t)
    \<and> \<bar>tt_p_u t + tt_p_m t + tt_p_d t - 1\<bar>
         \<le> (\<bar>1 - tt_p_u t\<bar> + \<bar>fl64 (1 - tt_p_u t) - tt_p_d t\<bar>) / 2 ^ 53"
    by (intro conjI)
next
  assume "1 \<le> n \<and> 0 < sigma \<and> 0 \<le> T"
  then have "n \<noteq> 0" "0 \<le> T / of_int n" "sigma \<noteq> 0" by simp_all
  then show "\<not> isl (TrinomialTree_init T S0 r sigma c K n ot)"
    by (rule TrinomialTree_init_ok)
qed

text \<open>The witness is an input at which the clamp acts (\<open>p_d\<close> is stored as 0).\<close>

theorem TrinomialTree_probabilities_witness:
  "\<exists>t. TrinomialTree_init 1 100 1 (7205759403792794 / 2 ^ 55) 0 100 1 ''call'' = Inr t
      \<and> tt_p_d t = 0 \<and> 0 \<le> tt_p_u t \<and> 0 \<le> tt_p_d t
      \<and> tt_p_m t = fl64 (fl64 (1 - tt_p_u t) - tt_p_d t)
      \<and> \<bar>tt_p_u t + tt_p_m t + tt_p_d t - 1\<bar>
           \<le> (\<bar>1 - tt_p_u t\<bar> + \<bar>fl64 (1 - tt_p_u t) - tt_p_d t\<bar>) / 2 ^ 53"
proof -
  have valid: "(1::int) \<le> 1 \<and> (0::real) < (7205759403792794 / 2 ^ 55) \<and> (0::real) \<le> 1"
    by simp
  with TrinomialTree_probabilities [of 1 100 1 "(7205759403792794 / 2 ^ 55)" 0 100 1 "''call''"]
  have "\<not> isl (TrinomialTree_init 1 100 1 (7205759403792794 / 2 ^ 55) 0 100 1 ''call'')"
    by blast
  then obtain t where t: "TrinomialTree_init 1 100 1 (7205759403792794 / 2 ^ 55) 0 100 1 ''call'' = Inr t"
    by (cases "TrinomialTree_init 1 100 1 (7205759403792794 / 2 ^ 55) 0 100 1 ''call''") auto
  from TrinomialTree_values_clamped have "tt_p_d t = 0" unfolding t by simp
  with TrinomialTree_probabilities [of 1 100 1 "(7205759403792794 / 2 ^ 55)" 0 100 1 "''call''" t] t
  show ?thesis by blast
qed

subsection \<open>The Greeks map and the price\<close>

lemma all_greeks_keys:
  assumes "BSMAnalytical_all_greeks self = Inr items"
  shows "map fst items = ''Price'' # greek_names \<and> BSMAnalytical_price self = Inr (snd (hd items))"
  using assms
  by (auto simp: BSMAnalytical_all_greeks_def bind_e_def greek_names_def split: sum.splits)

lemma greeks_valid:
  assumes "0 < S" "0 < K" "0 < T" "0 < sigma"
  shows "\<not> isl (BSMAnalytical_delta \<lparr>bsm_S = S, bsm_K = K, bsm_T = T, bsm_r = r,
            bsm_sigma = sigma, bsm_c = c, bsm_option_type = ot\<rparr>)"
    and "\<not> isl (BSMAnalytical_gamma \<lparr>bsm_S = S, bsm_K = K, bsm_T = T, bsm_r = r,
            bsm_sigma = sigma, bsm_c = c, bsm_option_type = ot\<rparr>)"
    and "\<not> isl (BSMAnalytical_vega \<lparr>bsm_S = S, bsm_K = K, bsm_T = T, bsm_r = r,
            bsm_sigma = sigma, bsm_c = c, bsm_option_type = ot\<rparr>)"
    and "\<not> isl (BSMAnalytical_theta \<lparr>bsm_S = S, bsm_K = K, bsm_T = T, bsm_r = r,
            bsm_sigma = sigma, bsm_c = c, bsm_option_type = ot\<rparr>)"
    and "\<not> isl (BSMAnalytical_rho \<lparr>bsm_S = S, bsm_K = K, bsm_T = T, bsm_r = r,
            bsm_sigma = sigma, bsm_c = c, bsm_option_type = ot\<rparr>)"
    and "\<not> isl (BSMAnalytical_price \<lparr>bsm_S = S, bsm_K = K, bsm_T = T, bsm_r = r,
            bsm_sigma = sigma, bsm_c = c, bsm_option_type = ot\<rparr>)"
  using assms
  by (simp_all add: BSMAnalytical_delta_def BSMAnalytical_gamma_def BSMAnalytical_vega_def
      BSMAnalytical_theta_def BSMAnalytical_rho_def BSMAnalytical_price_def d1_d2_valid
      py_sqrt_def py_div_def Let_def)

lemma not_isl_bind:
  "\<not> isl m \<Longrightarrow> bind_e m f = f (projr m)"
  by (cases m) simp_all

lemma all_greeks_valid:
  assumes "0 < S" "0 < K" "0 < T" "0 < sigma"
  shows "\<not> isl (BSMAnalytical_all_greeks \<lparr>bsm_S = S, bsm_K = K, bsm_T = T, bsm_r = r,
            bsm_sigma = sigma, bsm_c = c, bsm_option_type = ot\<rparr>)"
  unfolding BSMAnalytical_all_greeks_def
  by (simp add: not_isl_bind greeks_valid [OF assms])

lemma filter_price_keys:
  "map fst items = ''Price'' # greek_names \<Longrightarrow>
     map fst (map (\<lambda>(k, v). (k, f v)) (filter (\<lambda>(k, v). k \<noteq> ''Price'') items)) = greek_names"
proof -
  assume a: "map fst items = ''Price'' # greek_names"
  have "map fst (map (\<lambda>(k, v). (k, f v)) (filter (\<lambda>(k, v). k \<noteq> ''Price'') items))
        = filter (\<lambda>k. k \<noteq> ''Price'') (map fst items)"
    by (induction items) auto
  also have "\<dots> = greek_names" unfolding a by (simp add: greek_names_def)
  finally show ?thesis .
qed

lemma no_price_after_filter:
  "''Price'' \<notin> set (map fst (map (\<lambda>(k, v). (k, f v)) (filter (\<lambda>(k, v). k \<noteq> ''Price'') items)))"
  by (induction items) auto

lemma price_option_try_no_price:
  assumes "price_option_try round6 S K T r sigma c ot model = Inr (Status200 p greeks)"
  shows "''Price'' \<notin> set (map fst greeks)"
proof -
  from assms have "(\<exists>items. greeks = map (\<lambda>(k, v). (k, round6 v))
                               (filter (\<lambda>(k, v). k \<noteq> ''Price'') items)) \<or> greeks = []"
    unfolding price_option_try_def Let_def
    by (auto simp: bind_e_def split: sum.splits if_splits prod.splits)
  then show ?thesis using no_price_after_filter [of round6] by auto
qed

lemma price_option_Status200:
  assumes "price_option round6 S K T r sigma c ot model = Status200 p greeks"
  shows "price_option_try round6 S K T r sigma c ot model = Inr (Status200 p greeks)"
proof (cases "price_option_try round6 S K T r sigma c ot model")
  case (Inl e)
  with assms show ?thesis by (cases e) (simp_all add: price_option_def)
next
  case (Inr resp)
  with assms show ?thesis by (simp add: price_option_def)
qed

lemma price_option_bsm_valid:
  assumes "1 / 100 \<le> S" "1 / 100 \<le> K" "1 / 10 ^ 6 \<le> T" "T \<le> 10" "- 1 \<le> r" "r \<le> 1"
    "1 / 10 ^ 6 \<le> sigma" "sigma \<le> 5" "0 \<le> c" "c \<le> 1"
    "lower ot \<in> {''call'', ''put''}" "lower model = ''bsm''"
  shows "\<exists>p greeks. BSMAnalytical_new_price S K T r sigma c ot = Inr p
           \<and> price_option round6 S K T r sigma c ot model = Status200 (round6 p) greeks
           \<and> map fst greeks = greek_names"
proof -
  have pos: "0 < S" "0 < K" "0 < T" "0 < sigma"
    using assms(1,2,3,7) by (auto intro: less_le_trans [rotated])
  let ?bsm = "\<lparr>bsm_S = S, bsm_K = K, bsm_T = T, bsm_r = r, bsm_sigma = sigma, bsm_c = c,
               bsm_option_type = lower ot\<rparr>"
  have lot: "lower (lower ot) = lower ot" using assms(11) by auto
  have init: "BSMAnalytical_init S K T r sigma c (lower ot) = Inr ?bsm"
    and init': "BSMAnalytical_init S K T r sigma c ot = Inr ?bsm"
    using pos assms(11) by (auto simp: BSMAnalytical_init_eq lot)
  from greeks_valid(6) [OF pos, of r c "lower ot"] obtain p where
    p: "BSMAnalytical_price ?bsm = Inr p" by (cases "BSMAnalytical_price ?bsm") auto
  from all_greeks_valid [OF pos, of r c "lower ot"] obtain items where
    items: "BSMAnalytical_all_greeks ?bsm = Inr items"
    by (cases "BSMAnalytical_all_greeks ?bsm") auto
  have val: "validate_float S (Some (1 / 100)) None = Inr S"
    "validate_float K (Some (1 / 100)) None = Inr K"
    "validate_float T (Some (1 / 10 ^ 6)) (Some 10) = Inr T"
    "validate_float r (Some (- 1)) (Some 1) = Inr r"
    "validate_float sigma (Some (1 / 10 ^ 6)) (Some 5) = Inr sigma"
    "validate_float c (Some 0) (Some 1) = Inr c"
    using assms(1-10) by (simp_all add: validate_float_def not_less)
  have tr: "price_option_try round6 S K T r sigma c ot model =
          Inr (Status200 (round6 p) (map (\<lambda>(k, v). (k, round6 v))
                 (filter (\<lambda>(k, v). k \<noteq> ''Price'') items)))"
    unfolding price_option_try_def val bind_e_simps Let_def
    using assms(11,12) by (simp add: init p items)
  show ?thesis
  proof (intro exI conjI)
    show "BSMAnalytical_new_price S K T r sigma c ot = Inr p"
      by (simp add: BSMAnalytical_new_price_def init' p)
    show "price_option round6 S K T r sigma c ot model = Status200 (round6 p)
            (map (\<lambda>(k, v). (k, round6 v)) (filter (\<lambda>(k, v). k \<noteq> ''Price'') items))"
      by (simp add: price_option_def tr)
    show "map fst (map (\<lambda>(k, v). (k, round6 v)) (filter (\<lambda>(k, v). k \<noteq> ''Price'') items))
            = greek_names"
      using all_greeks_keys [OF items] by (simp only: filter_price_keys)
  qed
qed

text \<open>
  \<^bold>\<open>C9\<close>, as the specification states it: the map returned by the pricer's all-greeks
  operation has no entry for the price. It has one: the keys of \<open>all_greeks()\<close> start with
  \<open>'Price'\<close>.
\<close>

theorem all_greeks_has_price_counterexample:
  "map_sum id (map fst) (BSMAnalytical_all_greeks \<lparr>bsm_S = 100, bsm_K = 100, bsm_T = 1,
       bsm_r = 5 / 100, bsm_sigma = 2 / 10, bsm_c = 0, bsm_option_type = ''call''\<rparr>)
     = Inr (''Price'' # greek_names)"
proof -
  let ?bsm = "\<lparr>bsm_S = 100, bsm_K = 100, bsm_T = 1,
       bsm_r = 5 / 100, bsm_sigma = 2 / 10, bsm_c = 0, bsm_option_type = ''call''\<rparr>"
  have "\<not> isl (BSMAnalytical_all_greeks ?bsm)"
    by (rule all_greeks_valid) simp_all
  then obtain items where items: "BSMAnalytical_all_greeks ?bsm = Inr items"
    by (cases "BSMAnalytical_all_greeks ?bsm") auto
  from all_greeks_keys [OF items] show ?thesis unfolding items by simp
qed

text \<open>
  \<^bold>\<open>C9\<close>, amended: \<open>all_greeks()\<close> returns nine entries, the first being \<open>'Price'\<close> with
  the value of \<open>price()\<close>; the \<open>/price\<close> handler drops that entry, so the \<open>greeks\<close> map of
  its response never has the key \<open>'Price'\<close>, and for the model \<open>bsm\<close> it holds the other
  eight keys while the (rounded) price is a field of its own.
\<close>

theorem greeks_map_price_entry:
  "(BSMAnalytical_all_greeks self = Inr items \<longrightarrow>
      map fst items = ''Price'' # greek_names
    \<and> BSMAnalytical_price self = Inr (snd (hd items)))
 \<and> (price_option round6 S K T r sigma c ot model = Status200 p greeks \<longrightarrow>
      ''Price'' \<notin> set (map fst greeks))
 \<and> (1 / 100 \<le> S \<and> 1 / 100 \<le> K \<and> 1 / 10 ^ 6 \<le> T \<and> T \<le> 10 \<and> - 1 \<le> r \<and> r \<le> 1
      \<and> 1 / 10 ^ 6 \<le> sigma \<and> sigma \<le> 5 \<and> 0 \<le> c \<and> c \<le> 1
      \<and> lower ot \<in> {''call'', ''put''} \<and> lower model = ''bsm'' \<longrightarrow>
      (\<exists>v gs. BSMAnalytical_new_price S K T r sigma c ot = Inr v
         \<and> price_option round6 S K T r sigma c ot model = Status200 (round6 v) gs
         \<and> map fst gs = greek_names))"
proof (intro conjI impI)
  assume a: "BSMAnalytical_all_greeks self = Inr items"
  from all_greeks_keys [OF a] show "map fst items = ''Price'' # greek_names"
    and "BSMAnalytical_price self = Inr (snd (hd items))" by simp_all
next
  assume "price_option round6 S K T r sigma c ot model = Status200 p greeks"
  then have "price_option_try round6 S K T r sigma c ot model = Inr (Status200 p greeks)"
    by (rule price_option_Status200)
  then show "''Price'' \<notin> set (map fst greeks)"
    by (rule price_option_try_no_price)
next
  assume "1 / 100 \<le> S \<and> 1 / 100 \<le> K \<and> 1 / 10 ^ 6 \<le> T \<and> T \<le> 10 \<and> - 1 \<le> r \<and> r \<le> 1
      \<and> 1 / 10 ^ 6 \<le> sigma \<and> sigma \<le> 5 \<and> 0 \<le> c \<and> c \<le> 1
      \<and> lower ot \<in> {''call'', ''put''} \<and> lower model = ''bsm''"
  then show "\<exists>v gs. BSMAnalytical_new_price S K T r sigma c ot = Inr v
         \<and> price_option round6 S K T r sigma c ot model = Status200 (round6 v) gs
         \<and> map fst gs = greek_names"
    by (intro price_option_bsm_valid) simp_all
qed

theorem greeks_map_price_entry_witness:
  "(\<exists>items. BSMAnalytical_all_greeks \<lparr>bsm_S = 100, bsm_K = 100, bsm_T = 1, bsm_r = 5 / 100,
        bsm_sigma = 2 / 10, bsm_c = 0, bsm_option_type = ''call''\<rparr> = Inr items
      \<and> map fst items = ''Price'' # greek_names)
 \<and> (\<exists>v gs. BSMAnalytical_new_price 100 100 1 (5 / 100) (2 / 10) 0 ''call'' = Inr v
      \<and> price_option (\<lambda>x. x) 100 100 1 (5 / 100) (2 / 10) 0 ''call'' ''bsm'' = Status200 v gs
      \<and> map fst gs = greek_names \<and> ''Price'' \<notin> set (map fst gs))"
proof
  let ?bsm = "\<lparr>bsm_S = 100, bsm_K = 100, bsm_T = 1, bsm_r = 5 / 100,
        bsm_sigma = 2 / 10, bsm_c = 0, bsm_option_type = ''call''\<rparr>"
  have "\<not> isl (BSMAnalytical_all_greeks ?bsm)"
    by (rule all_greeks_valid) simp_all
  then obtain items where items: "BSMAnalytical_all_greeks ?bsm = Inr items"
    by (cases "BSMAnalytical_all_greeks ?bsm") auto
  with greeks_map_price_entry [of ?bsm items]
  show "\<exists>items. BSMAnalytical_all_greeks ?bsm = Inr items
          \<and> map fst items = ''Price'' # greek_names"
    by blast
next
  have valid: "(1 / 100 :: real) \<le> 100 \<and> (1 / 100 :: real) \<le> 100 \<and> (1 / 10 ^ 6 :: real) \<le> 1
      \<and> (1 :: real) \<le> 10 \<and> (- 1 :: real) \<le> 5 / 100 \<and> (5 / 100 :: real) \<le> 1
      \<and> (1 / 10 ^ 6 :: real) \<le> 2 / 10 \<and> (2 / 10 :: real) \<le> 5 \<and> (0 :: real) \<le> 0
      \<and> (0 :: real) \<le> 1
      \<and> lower ''call'' \<in> {''call'', ''put''} \<and> lower ''bsm'' = ''bsm''"
    by (simp add: lower_def lower_char_def)
  note inst = greeks_map_price_entry [of _ _ "\<lambda>x. x" 100 100 1 "5 / 100" "2 / 10" 0
      "''call''" "''bsm''"]
  from inst valid obtain v gs where
    vg: "BSMAnalytical_new_price 100 100 1 (5 / 100) (2 / 10) 0 ''call'' = Inr v"
      "price_option (\<lambda>x. x) 100 100 1 (5 / 100) (2 / 10) 0 ''call'' ''bsm'' = Status200 v gs"
      "map fst gs = greek_names"
    by blast
  from inst [of _ _ v gs] vg(2) have "''Price'' \<notin> set (map fst gs)" by blast
  with vg show "\<exists>v gs. BSMAnalytical_new_price 100 100 1 (5 / 100) (2 / 10) 0 ''call'' = Inr v
      \<and> price_option (\<lambda>x. x) 100 100 1 (5 / 100) (2 / 10) 0 ''call'' ''bsm'' = Status200 v gs
      \<and> map fst gs = greek_names \<and> ''Price'' \<notin> set (map fst gs)"
    by blast
qed

end
